theory Spec2Isabelle
  imports Complex_Main
begin

section \<open>Python strings\<close>

text \<open>
  A Python \<open>str\<close> is a sequence of Unicode code points and \<open>len\<close> counts code points,
  so a string is modelled as a list of code points. ASCII literals of the source are
  written \<open>ascii ''...''\<close>; literals with CJK characters are written as code point lists.
\<close>

type_synonym pychar = nat
type_synonym pystr = "pychar list"

definition ascii :: "string \<Rightarrow> pystr" where
  "ascii s = map of_char s"

text \<open>\<open>str.isspace\<close> for one character: the code points Python treats as whitespace.\<close>

definition isspace :: "pychar \<Rightarrow> bool" where
  "isspace c = (c \<in> set [9, 10, 11, 12, 13, 28, 29, 30, 31, 32, 133, 160, 5760,
                         8192, 8193, 8194, 8195, 8196, 8197, 8198, 8199, 8200, 8201, 8202,
                         8232, 8233, 8239, 8287, 12288])"

text \<open>\<open>s.strip()\<close>: leading and trailing whitespace removed.\<close>

definition strip :: "pystr \<Rightarrow> pystr" where
  "strip s = rev (dropWhile isspace (rev (dropWhile isspace s)))"

text \<open>
  \<open>s[:k]\<close> for a Python int \<open>k\<close>: a negative \<open>k\<close> counts from the end of the string
  (and an index before the start gives the empty string).
\<close>

definition slice_to :: "pystr \<Rightarrow> int \<Rightarrow> pystr" where
  "slice_to s k = (if 0 \<le> k then take (nat k) s else take (nat (int (length s) + k)) s)"

definition startswith :: "pystr \<Rightarrow> pystr \<Rightarrow> bool" where
  "startswith s p = (take (length p) s = p)"

text \<open>\<open>s.rfind(sub)\<close>: the highest index at which \<open>sub\<close> occurs in \<open>s\<close>, or \<open>-1\<close>.\<close>

fun rfind :: "pystr \<Rightarrow> pystr \<Rightarrow> int" where
  "rfind [] sub = (if sub = [] then 0 else -1)"
| "rfind (c # cs) sub =
     (let r = rfind cs sub
      in if 0 \<le> r then r + 1 else if startswith (c # cs) sub then 0 else -1)"

text \<open>\<open>sub in s\<close> for strings: \<open>sub\<close> occurs somewhere in \<open>s\<close>.\<close>

fun contains :: "pystr \<Rightarrow> pystr \<Rightarrow> bool" where
  "contains [] sub = (sub = [])"
| "contains (c # cs) sub = (startswith (c # cs) sub \<or> contains cs sub)"

section \<open>Truncation in the platform adapters\<close>

text \<open>
  \<open>FacebookAdapter._truncate_text\<close> (facebook.py) and \<open>InstagramAdapter._truncate_text\<close>
  (instagram.py) have the same body: cut at the last space of the first \<open>max_length\<close>
  characters when that space is not at index 0, strip, append \<open>"..."\<close>.
\<close>

definition FacebookAdapter_truncate_text :: "pystr \<Rightarrow> int \<Rightarrow> pystr" where
  "FacebookAdapter_truncate_text text max_length =
     (if int (length text) \<le> max_length then text
      else
        let truncated = slice_to text max_length;
            last_space = rfind truncated (ascii '' '');
            truncated = (if 0 < last_space then slice_to truncated last_space else truncated)
        in strip truncated @ ascii ''...'')"

definition InstagramAdapter_truncate_text :: "pystr \<Rightarrow> int \<Rightarrow> pystr" where
  "InstagramAdapter_truncate_text text max_length =
     (if int (length text) \<le> max_length then text
      else
        let truncated = slice_to text max_length;
            last_space = rfind truncated (ascii '' '');
            truncated = (if 0 < last_space then slice_to truncated last_space else truncated)
        in strip truncated @ ascii ''...'')"

text \<open>
  The source compares an index with \<open>max_length * 0.7\<close>, an int with the product of an int
  and a float. Python converts \<open>max_length\<close> to a double, multiplies it by the double
  nearest to 0.7, which is \<open>3152519739159347 / 2^52\<close>, rounds the product to a double
  (to nearest, ties to even), and compares the int with that double exactly. The
  rounding is modelled on integers: \<open>round_to_53_bits\<close> is the nearest natural number with
  at most 53 significant bits. (The exponent range of doubles is not modelled; it is
  exceeded only for \<open>max_length\<close> beyond \<open>2^1023\<close>.)
\<close>

function bit_length :: "nat \<Rightarrow> nat" where
  "bit_length n = (if n = 0 then 0 else Suc (bit_length (n div 2)))"
  by pat_completeness auto
termination
  by (relation "measure (\<lambda>n. n)") auto

declare bit_length.simps [simp del]

text \<open>\<open>p / q\<close> rounded to the nearest natural number, a tie to the even one.\<close>

definition round_half_even :: "nat \<Rightarrow> nat \<Rightarrow> nat" where
  "round_half_even p q =
     (let m = p div q; r = p mod q
      in if 2 * r < q then m
         else if q < 2 * r then m + 1
         else if even m then m else m + 1)"

definition round_to_53_bits :: "nat \<Rightarrow> nat" where
  "round_to_53_bits p =
     (if bit_length p \<le> 53 then p
      else round_half_even p (2 ^ (bit_length p - 53)) * 2 ^ (bit_length p - 53))"

text \<open>The double \<open>max_length * 0.7\<close>, multiplied by \<open>2^52\<close>; it is an integer.\<close>

definition times_0_7_scaled :: "int \<Rightarrow> int" where
  "times_0_7_scaled max_length =
     (if 0 \<le> max_length
      then int (round_to_53_bits (round_to_53_bits (nat max_length) * 3152519739159347))
      else - int (round_to_53_bits (round_to_53_bits (nat (- max_length)) * 3152519739159347)))"

text \<open>\<open>pos > max_length * 0.7\<close>, as Python evaluates it.\<close>

definition beyond_70_percent :: "int \<Rightarrow> int \<Rightarrow> bool" where
  "beyond_70_percent pos max_length = (times_0_7_scaled max_length < pos * 2 ^ 52)"

text \<open>
  \<open>YouTubeAdapter._truncate_text\<close> (youtube.py): a sentence end whose index passes the
  test \<open>last_sentence > max_length * 0.7\<close> is cut after its punctuation and gets no
  marker; otherwise the last space.
\<close>

definition YouTubeAdapter_truncate_text :: "pystr \<Rightarrow> int \<Rightarrow> pystr" where
  "YouTubeAdapter_truncate_text text max_length =
     (if int (length text) \<le> max_length then text
      else
        let truncated = slice_to text max_length;
            last_sentence = max (max (rfind truncated (ascii ''. ''))
                                     (rfind truncated (ascii ''! '')))
                                (rfind truncated (ascii ''? ''))
        in if beyond_70_percent last_sentence max_length
           then strip (slice_to truncated (last_sentence + 1))
           else
             let last_space = rfind truncated (ascii '' '');
                 truncated = (if 0 < last_space then slice_to truncated last_space
                              else truncated)
             in strip truncated @ ascii ''...'')"

text \<open>
  The continuation marker of \<open>LinkedInAdapter._truncate_text\<close>: three dots, a blank line
  and a parenthesised note in Chinese ("see the complete article for the full text"),
  16 code points in all.
\<close>

definition LinkedInAdapter_marker :: pystr where
  "LinkedInAdapter_marker =
     ascii ''...'' @ [10, 10] @
     [40, 20840, 25991, 35531, 21443, 35211, 23436, 25972, 25991, 31456, 41]"

text \<open>
  \<open>LinkedInAdapter._truncate_text\<close> (linkedin.py): a paragraph break, then a sentence
  end, then the last space. The sentence branch appends the marker after a space.
\<close>

definition LinkedInAdapter_truncate_text :: "pystr \<Rightarrow> int \<Rightarrow> pystr" where
  "LinkedInAdapter_truncate_text text max_length =
     (if int (length text) \<le> max_length then text
      else
        let truncated = slice_to text max_length;
            last_para = rfind truncated [10, 10]
        in if contains (slice_to text (max_length - 50)) [10, 10]
              \<and> beyond_70_percent last_para max_length
           then strip (slice_to truncated last_para) @ LinkedInAdapter_marker
           else
             let last_sentence = max (max (rfind truncated (ascii ''. ''))
                                          (rfind truncated (ascii ''! '')))
                                     (rfind truncated (ascii ''? ''))
             in if beyond_70_percent last_sentence max_length
                then strip (slice_to truncated (last_sentence + 1))
                       @ ascii '' '' @ LinkedInAdapter_marker
                else
                  let last_space = rfind truncated (ascii '' '');
                      truncated = (if 0 < last_space then slice_to truncated last_space
                                   else truncated)
                  in strip truncated @ LinkedInAdapter_marker)"

section \<open>Truncation as the specification words it, and as a scheme of tiers\<close>














section \<open>More string operations\<close>

text \<open>
  \<open>s.lower()\<close> and the upper-casing of one character, on ASCII letters. Code points
  beyond ASCII are left as they are: that is what Python does for the caseless CJK
  text of this repository, and the cased letters beyond ASCII are outside the model.
\<close>

definition lower_char :: "pychar \<Rightarrow> pychar" where
  "lower_char c = (if 65 \<le> c \<and> c \<le> 90 then c + 32 else c)"

definition lower :: "pystr \<Rightarrow> pystr" where
  "lower s = map lower_char s"

definition upper_char :: "pychar \<Rightarrow> pychar" where
  "upper_char c = (if 97 \<le> c \<and> c \<le> 122 then c - 32 else c)"

text \<open>\<open>re.match(r'^[a-z]', s)\<close>: the string starts with an ASCII lower-case letter.\<close>

definition starts_lowercase :: "pystr \<Rightarrow> bool" where
  "starts_lowercase s = (case s of [] \<Rightarrow> False | c # _ \<Rightarrow> 97 \<le> c \<and> c \<le> 122)"

text \<open>\<open>s[0].upper() + s[1:]\<close>, which the source evaluates only on a non-empty string.\<close>

definition capitalize_first :: "pystr \<Rightarrow> pystr" where
  "capitalize_first s = (case s of [] \<Rightarrow> [] | c # cs \<Rightarrow> upper_char c # cs)"

definition endswith :: "pystr \<Rightarrow> pystr \<Rightarrow> bool" where
  "endswith s suffix = startswith (rev s) (rev suffix)"

text \<open>
  \<open>s.split()\<close>: the maximal runs of characters that are not whitespace. The first
  argument is the word read so far.
\<close>

fun split_whitespace :: "pystr \<Rightarrow> pystr \<Rightarrow> pystr list" where
  "split_whitespace cur [] = (if cur = [] then [] else [cur])"
| "split_whitespace cur (c # cs) =
     (if isspace c then (if cur = [] then split_whitespace [] cs
                         else cur # split_whitespace [] cs)
      else split_whitespace (cur @ [c]) cs)"

definition split :: "pystr \<Rightarrow> pystr list" where
  "split s = split_whitespace [] s"

text \<open>\<open>s.split(sep)\<close> for a one-character separator: empty pieces are kept.\<close>

fun split_at :: "pychar \<Rightarrow> pystr \<Rightarrow> pystr \<Rightarrow> pystr list" where
  "split_at sep cur [] = [cur]"
| "split_at sep cur (c # cs) =
     (if c = sep then cur # split_at sep [] cs else split_at sep (cur @ [c]) cs)"

definition split_on :: "pystr \<Rightarrow> pychar \<Rightarrow> pystr list" where
  "split_on s sep = split_at sep [] s"

text \<open>\<open>sep.join(xs)\<close>.\<close>

fun join :: "pystr \<Rightarrow> pystr list \<Rightarrow> pystr" where
  "join sep [] = []"
| "join sep [x] = x"
| "join sep (x # y # ys) = x @ sep @ join sep (y # ys)"

text \<open>
  \<open>s.count(sub)\<close>: the number of non-overlapping occurrences of \<open>sub\<close> in \<open>s\<close>, counted
  from the left. For the empty \<open>sub\<close> Python answers \<open>len(s) + 1\<close>.
\<close>

function count :: "pystr \<Rightarrow> pystr \<Rightarrow> nat" where
  "count s sub =
     (if sub = [] then length s + 1
      else if s = [] then 0
      else if startswith s sub then 1 + count (drop (length sub) s) sub
      else count (tl s) sub)"
  by pat_completeness auto
termination
  by (relation "measure (\<lambda>(s, sub). length s)") auto

declare count.simps [simp del]

text \<open>
  The character class \<open>\w\<close> of Python's \<open>re\<close> on a \<open>str\<close> pattern. On ASCII it is
  \<open>[a-zA-Z0-9_]\<close>; beyond ASCII it follows the Unicode database (the alphanumeric
  code points), which is not part of the repository and is the parameter \<open>uni\<close>.
\<close>

definition word_char :: "(pychar \<Rightarrow> bool) \<Rightarrow> pychar \<Rightarrow> bool" where
  "word_char uni c =
     (if c < 128
      then (48 \<le> c \<and> c \<le> 57) \<or> (65 \<le> c \<and> c \<le> 90) \<or> c = 95 \<or> (97 \<le> c \<and> c \<le> 122)
      else uni c)"

text \<open>A Unicode table with no word character beyond ASCII, for ASCII inputs.\<close>

definition ascii_only :: "pychar \<Rightarrow> bool" where
  "ascii_only c = False"

text \<open>
  \<open>re.findall(r'#(\w+)', s)\<close>: scanning from the left, every \<open>#\<close> that is followed by a
  word character starts a match, which takes the longest run of word characters;
  the scan goes on after the match. The group, the run without its \<open>#\<close>, is returned.
\<close>

function findall_hashtags :: "(pychar \<Rightarrow> bool) \<Rightarrow> pystr \<Rightarrow> pystr list" where
  "findall_hashtags uni [] = []"
| "findall_hashtags uni (c # cs) =
     (if c = 35 \<and> takeWhile (word_char uni) cs \<noteq> []
      then takeWhile (word_char uni) cs # findall_hashtags uni (dropWhile (word_char uni) cs)
      else findall_hashtags uni cs)"
  by pat_completeness auto
termination
  by (relation "measure (\<lambda>(uni, s). length s)") (auto simp: less_Suc_eq_le length_dropWhile_le)

text \<open>\<open>re.sub(r'#(\w+)', '', s)\<close>: the same scan, with every match removed.\<close>

function remove_hashtags :: "(pychar \<Rightarrow> bool) \<Rightarrow> pystr \<Rightarrow> pystr" where
  "remove_hashtags uni [] = []"
| "remove_hashtags uni (c # cs) =
     (if c = 35 \<and> takeWhile (word_char uni) cs \<noteq> []
      then remove_hashtags uni (dropWhile (word_char uni) cs)
      else c # remove_hashtags uni cs)"
  by pat_completeness auto
termination
  by (relation "measure (\<lambda>(uni, s). length s)") (auto simp: less_Suc_eq_le length_dropWhile_le)

section \<open>Hashtag reconciliation in the platform adapters\<close>

text \<open>
  The merge all three \<open>_adapt_hashtags\<close> methods start with: the inline tags as found,
  then those explicit tags that are not among the inline ones. The list comprehension
  of the source is evaluated before \<open>extend\<close> runs, so each explicit tag is compared
  with the inline tags only. An explicit list that is \<open>None\<close> or empty adds nothing.
\<close>

definition merge_hashtags :: "pystr list \<Rightarrow> pystr list option \<Rightarrow> pystr list" where
  "merge_hashtags text_hashtags existing_hashtags =
     text_hashtags @
     (case existing_hashtags of
        None \<Rightarrow> []
      | Some existing \<Rightarrow> filter (\<lambda>tag. tag \<notin> set text_hashtags) existing)"

definition FacebookAdapter_MAX_HASHTAGS :: nat where
  "FacebookAdapter_MAX_HASHTAGS = 5"

definition InstagramAdapter_MAX_HASHTAGS :: nat where
  "InstagramAdapter_MAX_HASHTAGS = 30"

definition LinkedInAdapter_MAX_HASHTAGS :: nat where
  "LinkedInAdapter_MAX_HASHTAGS = 10"

text \<open>
  \<open>FacebookAdapter._adapt_hashtags\<close> (facebook.py): with more than five inline tags the
  tags are removed from the text and the kept ones appended, each after a space.
\<close>

definition FacebookAdapter_adapt_hashtags ::
  "(pychar \<Rightarrow> bool) \<Rightarrow> pystr \<Rightarrow> pystr list option \<Rightarrow> pystr \<times> pystr list" where
  "FacebookAdapter_adapt_hashtags uni text existing_hashtags =
     (let text_hashtags = findall_hashtags uni text;
          all_hashtags = merge_hashtags text_hashtags existing_hashtags;
          all_hashtags = (if FacebookAdapter_MAX_HASHTAGS < length all_hashtags
                          then take FacebookAdapter_MAX_HASHTAGS all_hashtags
                          else all_hashtags)
      in if FacebookAdapter_MAX_HASHTAGS < length text_hashtags
         then (fold (\<lambda>tag final_text. final_text @ ascii '' #'' @ tag) all_hashtags
                 (strip (remove_hashtags uni text)),
               all_hashtags)
         else (text, all_hashtags))"

text \<open>
  \<open>InstagramAdapter._adapt_hashtags\<close> (instagram.py): with more than three inline tags
  the tags are removed from the text and the kept ones collected in a block at the end.
\<close>

definition InstagramAdapter_adapt_hashtags ::
  "(pychar \<Rightarrow> bool) \<Rightarrow> pystr \<Rightarrow> pystr list option \<Rightarrow> pystr \<times> pystr list" where
  "InstagramAdapter_adapt_hashtags uni text existing_hashtags =
     (let text_hashtags = findall_hashtags uni text;
          all_hashtags = merge_hashtags text_hashtags existing_hashtags;
          all_hashtags = (if InstagramAdapter_MAX_HASHTAGS < length all_hashtags
                          then take InstagramAdapter_MAX_HASHTAGS all_hashtags
                          else all_hashtags)
      in if text_hashtags \<noteq> [] \<and> 3 < length text_hashtags
         then
           let text_without_hashtags = strip (remove_hashtags uni text);
               hashtag_text = join (ascii '' '') (map (\<lambda>tag. ascii ''#'' @ tag) all_hashtags)
           in (if text_without_hashtags \<noteq> [] \<and> hashtag_text \<noteq> []
               then text_without_hashtags @ [10, 10] @ hashtag_text
               else text_without_hashtags @ hashtag_text,
               all_hashtags)
         else (text, all_hashtags))"

text \<open>\<open>LinkedInAdapter._adapt_hashtags\<close> (linkedin.py): the text is never changed.\<close>

definition LinkedInAdapter_adapt_hashtags ::
  "(pychar \<Rightarrow> bool) \<Rightarrow> pystr \<Rightarrow> pystr list option \<Rightarrow> pystr \<times> pystr list" where
  "LinkedInAdapter_adapt_hashtags uni text existing_hashtags =
     (let text_hashtags = findall_hashtags uni text;
          all_hashtags = merge_hashtags text_hashtags existing_hashtags;
          all_hashtags = (if LinkedInAdapter_MAX_HASHTAGS < length all_hashtags
                          then take LinkedInAdapter_MAX_HASHTAGS all_hashtags
                          else all_hashtags)
      in (text, all_hashtags))"

section \<open>The data model (data/schemas.py)\<close>

datatype Platform = FACEBOOK | INSTAGRAM | LINKEDIN | YOUTUBE | TWITTER | TIKTOK

datatype ContentType = TEXT | IMAGE | VIDEO | CAROUSEL | STORY | REEL

record TextContent =
  tc_text :: pystr
  tc_hashtags :: "pystr list option"
  tc_mentions :: "pystr list option"

record ImageContent =
  ic_prompt :: pystr
  ic_image_url :: "pystr option"
  ic_alt_text :: "pystr option"
  ic_caption :: "pystr option"

record VideoContent =
  vc_title :: pystr
  vc_script :: pystr
  vc_description :: "pystr option"
  vc_thumbnail_prompt :: "pystr option"
  vc_duration_seconds :: "int option"
  vc_video_url :: "pystr option"

text \<open>The fields class \<open>VideoContent\<close> declares, by name.\<close>

definition VideoContent_fields :: "string list" where
  "VideoContent_fields =
     [''title'', ''script'', ''description'', ''thumbnail_prompt'', ''duration_seconds'',
      ''video_url'']"

text \<open>
  \<open>ContentItem\<close>. Its fields \<open>created_at\<close>, \<open>updated_at\<close> (timestamps with a default) and
  \<open>raw_request\<close> carry no validator and are read by no adapter; they are left out.
\<close>

record ContentItem =
  ci_id :: pystr
  ci_brand_id :: pystr
  ci_platform :: Platform
  ci_content_type :: ContentType
  ci_text_content :: "TextContent option"
  ci_image_content :: "ImageContent option"
  ci_video_content :: "VideoContent option"

text \<open>The exceptions of Python that the modelled code can raise.\<close>

datatype pyerror = TypeError | ValueError | AttributeError

text \<open>
  Assignment to an attribute of a pydantic model (\<open>BaseModel.__setattr__\<close> with the
  default configuration): a name that is not a declared field raises \<open>ValueError\<close>
  ("object has no field"); a declared field is assigned, giving \<open>updated\<close>.
\<close>

definition pydantic_setattr :: "string list \<Rightarrow> string \<Rightarrow> 'r \<Rightarrow> pyerror + 'r" where
  "pydantic_setattr declared name updated =
     (if name \<in> set declared then Inr updated else Inl ValueError)"

subsection \<open>Constructing a ContentItem\<close>

text \<open>
  \<open>ContentItem(**kwargs)\<close> runs pydantic's validation (version 1: the module uses
  \<open>validator\<close> and \<open>Field(regex=...)\<close>). A keyword argument is either absent or given;
  an optional field can be given as \<open>None\<close>.
\<close>

datatype 'a arg = Missing | Given 'a

record ContentItem_kwargs =
  kw_id :: "pystr arg"
  kw_brand_id :: "pystr arg"
  kw_platform :: "Platform arg"
  kw_content_type :: "ContentType arg"
  kw_text_content :: "TextContent option arg"
  kw_image_content :: "ImageContent option arg"
  kw_video_content :: "VideoContent option arg"

text \<open>A validated field value, as stored in the dictionary \<open>values\<close>.\<close>

datatype field_value =
    VStr pystr
  | VPlatform Platform
  | VContentType ContentType
  | VTextContent "TextContent option"
  | VImageContent "ImageContent option"
  | VVideoContent "VideoContent option"

text \<open>
  One entry of the \<open>ValidationError\<close>: a required field is missing, or the validator
  raised \<open>ValueError\<close> with the message that names the payload it asks for.
\<close>

datatype validation_problem =
    FieldRequired string
  | MustProvideTextContent string
  | MustProvideImageContent string
  | MustProvideVideoContent string

text \<open>
  \<open>ContentItem.validate_content_consistency(cls, v, values)\<close>: \<open>values\<close> holds the
  fields validated before the one at hand, \<open>field\<close> is the name of the field at hand
  (used only to locate the error), and the result is the error raised, if any.
\<close>

definition validate_content_consistency ::
  "string \<Rightarrow> (string \<times> field_value) list \<Rightarrow> validation_problem option" where
  "validate_content_consistency field values =
     (let content_type = map_of values ''content_type''
      in if content_type = Some (VContentType TEXT) \<and> map_of values ''text_content'' = None
         then Some (MustProvideTextContent field)
         else if content_type = Some (VContentType IMAGE)
                 \<and> map_of values ''image_content'' = None
         then Some (MustProvideImageContent field)
         else if content_type = Some (VContentType VIDEO)
                 \<and> map_of values ''video_content'' = None
         then Some (MustProvideVideoContent field)
         else None)"

text \<open>
  The state of pydantic's \<open>validate_model\<close> loop: the dictionary \<open>values\<close> of the fields
  validated so far, and the errors collected.
\<close>

record validation_state =
  vs_values :: "(string \<times> field_value) list"
  vs_errors :: "validation_problem list"

text \<open>
  One round of the loop for a required field: an absent argument is an error; a given
  one is validated, by the class validator when \<open>validated\<close> says the validator is
  registered for the field, and stored in \<open>values\<close> only if that raised nothing.
\<close>

definition validate_required ::
  "string \<Rightarrow> bool \<Rightarrow> field_value arg \<Rightarrow> validation_state \<Rightarrow> validation_state" where
  "validate_required name validated a st =
     (case a of
        Missing \<Rightarrow> st\<lparr>vs_errors := vs_errors st @ [FieldRequired name]\<rparr>
      | Given v \<Rightarrow>
          (case (if validated then validate_content_consistency name (vs_values st)
                 else None) of
             Some e \<Rightarrow> st\<lparr>vs_errors := vs_errors st @ [e]\<rparr>
           | None \<Rightarrow> st\<lparr>vs_values := vs_values st @ [(name, v)]\<rparr>))"

text \<open>
  One round for an optional field whose default \<open>none\<close> is \<open>None\<close>: an absent argument
  stores the default without calling any validator (the validator is not declared \<open>always\<close>); a
  given one, \<open>None\<close> included, goes through the class validator.
\<close>

definition validate_optional ::
  "string \<Rightarrow> field_value \<Rightarrow> field_value arg \<Rightarrow> validation_state \<Rightarrow> validation_state" where
  "validate_optional name none a st =
     (case a of
        Missing \<Rightarrow> st\<lparr>vs_values := vs_values st @ [(name, none)]\<rparr>
      | Given v \<Rightarrow>
          (case validate_content_consistency name (vs_values st) of
             Some e \<Rightarrow> st\<lparr>vs_errors := vs_errors st @ [e]\<rparr>
           | None \<Rightarrow> st\<lparr>vs_values := vs_values st @ [(name, v)]\<rparr>))"

definition map_arg :: "('a \<Rightarrow> 'b) \<Rightarrow> 'a arg \<Rightarrow> 'b arg" where
  "map_arg f a = (case a of Missing \<Rightarrow> Missing | Given x \<Rightarrow> Given (f x))"

definition arg_or :: "'a \<Rightarrow> 'a arg \<Rightarrow> 'a" where
  "arg_or d a = (case a of Missing \<Rightarrow> d | Given x \<Rightarrow> x)"

text \<open>
  The loop over the fields in the order the class declares them. The validator is
  registered for \<open>content_type\<close>, \<open>text_content\<close>, \<open>image_content\<close> and \<open>video_content\<close>.
\<close>

definition validate_model :: "ContentItem_kwargs \<Rightarrow> validation_state" where
  "validate_model kw =
     (validate_optional ''video_content'' (VVideoContent None)
        (map_arg VVideoContent (kw_video_content kw))
     (validate_optional ''image_content'' (VImageContent None)
        (map_arg VImageContent (kw_image_content kw))
     (validate_optional ''text_content'' (VTextContent None)
        (map_arg VTextContent (kw_text_content kw))
     (validate_required ''content_type'' True (map_arg VContentType (kw_content_type kw))
     (validate_required ''platform'' False (map_arg VPlatform (kw_platform kw))
     (validate_required ''brand_id'' False (map_arg VStr (kw_brand_id kw))
     (validate_required ''id'' False (map_arg VStr (kw_id kw))
        \<lparr>vs_values = [], vs_errors = []\<rparr>)))))))"

text \<open>
  The constructor: \<open>Inl\<close> is the \<open>ValidationError\<close> raised, with its entries; \<open>Inr\<close> is
  the item built from the validated values.
\<close>

definition ContentItem_new :: "ContentItem_kwargs \<Rightarrow> validation_problem list + ContentItem" where
  "ContentItem_new kw =
     (case vs_errors (validate_model kw) of
        e # es \<Rightarrow> Inl (e # es)
      | [] \<Rightarrow>
          (case (kw_id kw, kw_brand_id kw, kw_platform kw, kw_content_type kw) of
             (Given i, Given b, Given p, Given t) \<Rightarrow>
               Inr \<lparr>ci_id = i, ci_brand_id = b, ci_platform = p, ci_content_type = t,
                    ci_text_content = arg_or None (kw_text_content kw),
                    ci_image_content = arg_or None (kw_image_content kw),
                    ci_video_content = arg_or None (kw_video_content kw)\<rparr>
           | _ \<Rightarrow> Inl []))"

section \<open>The platform adapters (platforms/*.py)\<close>

text \<open>
  An adapter method returns a dictionary: \<open>{"success": True, "content": ..., "metadata":
  ...}\<close> or \<open>{"success": False, "error": ..., "content": ...}\<close>. The metadata dictionary
  is an association list under the source's keys. The advisory messages (Chinese
  sentences, some with a number filled in) are the constructors of \<open>advice\<close>, one per
  message of the source, prefixed by the platform.
\<close>

datatype advice =
    FB_shorten_post
  | FB_add_hashtags
  | IG_shorten_caption
  | IG_add_hashtags
  | IG_more_hashtags
  | IG_too_many_hashtags
  | IG_exceeds_reels_length int
  | IG_exceeds_feed_length int
  | IG_add_thumbnail
  | LI_article_short
  | LI_article_long
  | LI_post_long
  | LI_add_hashtags
  | LI_too_many_hashtags
  | LI_images_engage
  | YT_thumbnail_size
  | YT_thumbnail_colours
  | YT_thumbnail_few_words
  | YT_thumbnail_complements_title

datatype meta_note = IG_text_converted_to_image | YT_image_set_as_thumbnail

datatype meta_value =
    MStr string
  | MInt int
  | MOptInt "int option"
  | MBool bool
  | MNote meta_note
  | MAdvice "advice list"

type_synonym metadata = "(string \<times> meta_value) list"

datatype adapt_error =
    Missing_text_content
  | Missing_image_content
  | Missing_video_content
  | Unsupported_content_type ContentType

datatype adapt_result =
    Success ContentItem metadata
  | Failure adapt_error ContentItem

subsection \<open>FacebookAdapter\<close>

definition FacebookAdapter_MAX_POST_LENGTH :: int where
  "FacebookAdapter_MAX_POST_LENGTH = 63206"

definition FacebookAdapter_IDEAL_POST_LENGTH :: nat where
  "FacebookAdapter_IDEAL_POST_LENGTH = 40"

definition FacebookAdapter_adapt_text_length :: "pystr \<Rightarrow> pystr" where
  "FacebookAdapter_adapt_text_length text =
     (if int (length text) \<le> FacebookAdapter_MAX_POST_LENGTH then text
      else FacebookAdapter_truncate_text text FacebookAdapter_MAX_POST_LENGTH)"

text \<open>\<open>_adapt_mentions\<close> finds the mentions and returns the text as it is.\<close>

definition FacebookAdapter_adapt_mentions :: "pystr \<Rightarrow> pystr" where
  "FacebookAdapter_adapt_mentions text = text"

definition FacebookAdapter_adapt_text_content ::
  "(pychar \<Rightarrow> bool) \<Rightarrow> ContentItem \<Rightarrow> adapt_result" where
  "FacebookAdapter_adapt_text_content uni content_item =
     (case ci_text_content content_item of
        None \<Rightarrow> Failure Missing_text_content content_item
      | Some text_content \<Rightarrow>
          let original_text = tc_text text_content;
              adapted_text = FacebookAdapter_adapt_text_length original_text;
              (adapted_text, hashtags) =
                 FacebookAdapter_adapt_hashtags uni adapted_text (tc_hashtags text_content);
              adapted_text = FacebookAdapter_adapt_mentions adapted_text;
              adapted_content = content_item
                \<lparr>ci_text_content :=
                   Some (text_content\<lparr>tc_text := adapted_text, tc_hashtags := Some hashtags\<rparr>)\<rparr>
          in Success adapted_content
               [(''platform'', MStr ''facebook''),
                (''content_type'', MStr ''text''),
                (''character_count'', MInt (int (length adapted_text))),
                (''word_count'', MInt (int (length (split adapted_text)))),
                (''hashtag_count'', MInt (int (length hashtags))),
                (''is_within_limits'',
                   MBool (int (length adapted_text) \<le> FacebookAdapter_MAX_POST_LENGTH)),
                (''recommendations'', MAdvice
                   ((if FacebookAdapter_IDEAL_POST_LENGTH * 2 < length (split adapted_text)
                     then [FB_shorten_post] else []) @
                    (if length hashtags < 2 then [FB_add_hashtags] else [])))])"

subsection \<open>InstagramAdapter\<close>

definition InstagramAdapter_MAX_CAPTION_LENGTH :: int where
  "InstagramAdapter_MAX_CAPTION_LENGTH = 2200"

definition InstagramAdapter_IDEAL_CAPTION_LENGTH :: nat where
  "InstagramAdapter_IDEAL_CAPTION_LENGTH = 150"

definition InstagramAdapter_OPTIMAL_HASHTAGS :: nat where
  "InstagramAdapter_OPTIMAL_HASHTAGS = 11"

definition InstagramAdapter_MAX_VIDEO_LENGTH_SECONDS :: int where
  "InstagramAdapter_MAX_VIDEO_LENGTH_SECONDS = 90"

definition InstagramAdapter_MAX_FEED_VIDEO_SECONDS :: int where
  "InstagramAdapter_MAX_FEED_VIDEO_SECONDS = 60"

definition InstagramAdapter_adapt_caption_length :: "pystr \<Rightarrow> pystr" where
  "InstagramAdapter_adapt_caption_length caption =
     (if int (length caption) \<le> InstagramAdapter_MAX_CAPTION_LENGTH then caption
      else InstagramAdapter_truncate_text caption InstagramAdapter_MAX_CAPTION_LENGTH)"

definition InstagramAdapter_adapt_mentions :: "pystr \<Rightarrow> pystr" where
  "InstagramAdapter_adapt_mentions text = text"

text \<open>
  The hashtag advice shared by the Instagram methods; \<open>adapt_to_caption\<close> has a third
  case for more than \<open>OPTIMAL_HASHTAGS\<close> tags, the other methods have not.
\<close>

definition InstagramAdapter_hashtag_advice :: "bool \<Rightarrow> pystr list \<Rightarrow> advice list" where
  "InstagramAdapter_hashtag_advice with_upper hashtags =
     (if hashtags = [] then [IG_add_hashtags]
      else if length hashtags < 5 then [IG_more_hashtags]
      else if with_upper \<and> InstagramAdapter_OPTIMAL_HASHTAGS < length hashtags
      then [IG_too_many_hashtags]
      else [])"

text \<open>
  \<open>InstagramAdapter.adapt_to_caption\<close>: a text item becomes an image item whose caption
  is the adapted text. The synthesized prompt and alt text are Chinese literals; the
  alt text has the brand id between its two parts.
\<close>

definition InstagramAdapter_adapt_to_caption ::
  "(pychar \<Rightarrow> bool) \<Rightarrow> ContentItem \<Rightarrow> adapt_result" where
  "InstagramAdapter_adapt_to_caption uni content_item =
     (case ci_text_content content_item of
        None \<Rightarrow> Failure Missing_text_content content_item
      | Some text_content \<Rightarrow>
          let original_text = tc_text text_content;
              adapted_caption = InstagramAdapter_adapt_caption_length original_text;
              (adapted_caption, hashtags) =
                 InstagramAdapter_adapt_hashtags uni adapted_caption (tc_hashtags text_content);
              adapted_caption = InstagramAdapter_adapt_mentions adapted_caption;
              adapted_content = content_item\<lparr>ci_content_type := IMAGE\<rparr>;
              adapted_content =
                (case ci_image_content adapted_content of
                   None \<Rightarrow> adapted_content
                     \<lparr>ci_image_content := Some
                        \<lparr>ic_prompt = [26681, 25818, 22294, 20687, 35498, 26126, 29983, 25104,
                                      22294, 20687],
                         ic_image_url = None,
                         ic_alt_text = Some ([30001, 32] @ ci_brand_id adapted_content
                                              @ [32, 21109, 24314, 30340, 22294, 20687]),
                         ic_caption = Some adapted_caption\<rparr>\<rparr>
                 | Some image_content \<Rightarrow> adapted_content
                     \<lparr>ci_image_content := Some (image_content\<lparr>ic_caption := Some adapted_caption\<rparr>)\<rparr>)
          in Success adapted_content
               [(''platform'', MStr ''instagram''),
                (''content_type'', MStr ''image''),
                (''original_type'', MStr ''text''),
                (''caption_length'', MInt (int (length adapted_caption))),
                (''character_count'', MInt (int (length adapted_caption))),
                (''word_count'', MInt (int (length (split adapted_caption)))),
                (''hashtag_count'', MInt (int (length hashtags))),
                (''is_within_limits'',
                   MBool (int (length adapted_caption) \<le> InstagramAdapter_MAX_CAPTION_LENGTH)),
                (''note'', MNote IG_text_converted_to_image),
                (''recommendations'', MAdvice
                   ((if InstagramAdapter_IDEAL_CAPTION_LENGTH < length (split adapted_caption)
                     then [IG_shorten_caption] else []) @
                    InstagramAdapter_hashtag_advice True hashtags))])"

text \<open>
  \<open>InstagramAdapter.adapt_video_content\<close>. The duration check is guarded by
  \<open>if duration_seconds:\<close> (false for \<open>None\<close> and for 0). The entry \<open>"video_type"\<close> of the
  metadata compares \<open>duration_seconds > MAX_FEED_VIDEO_SECONDS\<close> without a guard; in
  Python 3 the comparison of \<open>None\<close> with an int raises \<open>TypeError\<close>.
\<close>

definition py_greater :: "int option \<Rightarrow> int \<Rightarrow> pyerror + bool" where
  "py_greater a b = (case a of None \<Rightarrow> Inl TypeError | Some x \<Rightarrow> Inr (b < x))"

definition InstagramAdapter_adapt_video_content ::
  "(pychar \<Rightarrow> bool) \<Rightarrow> ContentItem \<Rightarrow> pyerror + adapt_result" where
  "InstagramAdapter_adapt_video_content uni content_item =
     (case ci_video_content content_item of
        None \<Rightarrow> Inr (Failure Missing_video_content content_item)
      | Some video_content \<Rightarrow>
          let description = (case vc_description video_content of None \<Rightarrow> [] | Some d \<Rightarrow> d);
              adapted_description = InstagramAdapter_adapt_caption_length description;
              (adapted_description, hashtags) =
                 InstagramAdapter_adapt_hashtags uni adapted_description None;
              adapted_content = content_item
                \<lparr>ci_video_content :=
                   Some (video_content\<lparr>vc_description := Some adapted_description\<rparr>)\<rparr>;
              (duration_valid, duration_message) =
                 (case vc_duration_seconds video_content of
                    None \<Rightarrow> (True, [])
                  | Some duration \<Rightarrow>
                      if duration = 0 then (True, [])
                      else if InstagramAdapter_MAX_VIDEO_LENGTH_SECONDS < duration
                      then (False, [IG_exceeds_reels_length duration])
                      else if InstagramAdapter_MAX_FEED_VIDEO_SECONDS < duration
                      then (True, [IG_exceeds_feed_length duration])
                      else (True, []))
          in case py_greater (vc_duration_seconds video_content)
                    InstagramAdapter_MAX_FEED_VIDEO_SECONDS of
               Inl e \<Rightarrow> Inl e
             | Inr is_reels \<Rightarrow>
                 Inr (Success adapted_content
                   [(''platform'', MStr ''instagram''),
                    (''content_type'', MStr ''video''),
                    (''video_type'', MStr (if is_reels then ''reels'' else ''feed'')),
                    (''description_length'', MInt (int (length adapted_description))),
                    (''duration_seconds'', MOptInt (vc_duration_seconds video_content)),
                    (''duration_valid'', MBool duration_valid),
                    (''hashtag_count'', MInt (int (length hashtags))),
                    (''recommendations'', MAdvice
                       (duration_message @
                        (case vc_thumbnail_prompt video_content of
                           None \<Rightarrow> [IG_add_thumbnail]
                         | Some p \<Rightarrow> if p = [] then [IG_add_thumbnail] else []) @
                        InstagramAdapter_hashtag_advice False hashtags))]))"

subsection \<open>LinkedInAdapter\<close>

definition LinkedInAdapter_MAX_POST_LENGTH :: int where
  "LinkedInAdapter_MAX_POST_LENGTH = 3000"

definition LinkedInAdapter_IDEAL_POST_LENGTH :: nat where
  "LinkedInAdapter_IDEAL_POST_LENGTH = 200"

definition LinkedInAdapter_MAX_ARTICLE_LENGTH :: int where
  "LinkedInAdapter_MAX_ARTICLE_LENGTH = 100000"

definition LinkedInAdapter_OPTIMAL_HASHTAGS :: nat where
  "LinkedInAdapter_OPTIMAL_HASHTAGS = 5"

definition LinkedInAdapter_adapt_post_length :: "pystr \<Rightarrow> pystr" where
  "LinkedInAdapter_adapt_post_length text =
     (if int (length text) \<le> LinkedInAdapter_MAX_POST_LENGTH then text
      else LinkedInAdapter_truncate_text text LinkedInAdapter_MAX_POST_LENGTH)"

definition LinkedInAdapter_adapt_article_length :: "pystr \<Rightarrow> pystr" where
  "LinkedInAdapter_adapt_article_length text =
     (if int (length text) \<le> LinkedInAdapter_MAX_ARTICLE_LENGTH then text
      else LinkedInAdapter_truncate_text text LinkedInAdapter_MAX_ARTICLE_LENGTH)"

definition LinkedInAdapter_adapt_mentions :: "pystr \<Rightarrow> pystr" where
  "LinkedInAdapter_adapt_mentions text = text"

text \<open>
  \<open>LinkedInAdapter.adapt_text_content\<close>. The bound \<open>IDEAL_POST_LENGTH * 1.5\<close> on the word
  count is \<open>300.0\<close>, compared here as \<open>3 * IDEAL_POST_LENGTH < 2 * words\<close>.
\<close>

definition LinkedInAdapter_adapt_text_content ::
  "(pychar \<Rightarrow> bool) \<Rightarrow> ContentItem \<Rightarrow> adapt_result" where
  "LinkedInAdapter_adapt_text_content uni content_item =
     (case ci_text_content content_item of
        None \<Rightarrow> Failure Missing_text_content content_item
      | Some text_content \<Rightarrow>
          let original_text = tc_text text_content;
              is_article = (300 < length (split original_text) \<or> 1000 < length original_text);
              adapted_text = (if is_article then LinkedInAdapter_adapt_article_length original_text
                              else LinkedInAdapter_adapt_post_length original_text);
              (adapted_text, hashtags) =
                 LinkedInAdapter_adapt_hashtags uni adapted_text (tc_hashtags text_content);
              adapted_text = LinkedInAdapter_adapt_mentions adapted_text;
              adapted_content = content_item
                \<lparr>ci_text_content :=
                   Some (text_content\<lparr>tc_text := adapted_text, tc_hashtags := Some hashtags\<rparr>)\<rparr>;
              words = length (split adapted_text)
          in Success adapted_content
               [(''platform'', MStr ''linkedin''),
                (''content_type'', MStr (if is_article then ''article'' else ''post'')),
                (''character_count'', MInt (int (length adapted_text))),
                (''word_count'', MInt (int words)),
                (''hashtag_count'', MInt (int (length hashtags))),
                (''is_within_limits'',
                   MBool (int (length adapted_text)
                            \<le> (if is_article then LinkedInAdapter_MAX_ARTICLE_LENGTH
                                else LinkedInAdapter_MAX_POST_LENGTH))),
                (''recommendations'', MAdvice
                   ((if is_article
                     then (if words < 800 then [LI_article_short]
                           else if 2000 < words then [LI_article_long] else [])
                     else (if 3 * LinkedInAdapter_IDEAL_POST_LENGTH < 2 * words
                           then [LI_post_long] else [])) @
                    (if hashtags = [] then [LI_add_hashtags]
                     else if LinkedInAdapter_OPTIMAL_HASHTAGS < length hashtags
                     then [LI_too_many_hashtags] else []) @
                    [LI_images_engage]))])"

subsection \<open>YouTubeAdapter\<close>

definition YouTubeAdapter_MAX_TITLE_LENGTH :: int where
  "YouTubeAdapter_MAX_TITLE_LENGTH = 100"

definition YouTubeAdapter_IDEAL_TITLE_LENGTH :: int where
  "YouTubeAdapter_IDEAL_TITLE_LENGTH = 60"

definition YouTubeAdapter_MAX_DESCRIPTION_LENGTH :: int where
  "YouTubeAdapter_MAX_DESCRIPTION_LENGTH = 5000"

text \<open>
  \<open>YouTubeAdapter._adapt_title\<close>: an empty title is replaced by a Chinese placeholder
  ("a video title is needed"), a long one is truncated, and a title that starts with
  an ASCII lower-case letter gets that letter in upper case.
\<close>

definition YouTubeAdapter_adapt_title :: "pystr \<Rightarrow> pystr" where
  "YouTubeAdapter_adapt_title title =
     (if title = [] then [38656, 35201, 25552, 20379, 24433, 29255, 27161, 38988]
      else
        let title = (if YouTubeAdapter_MAX_TITLE_LENGTH < int (length title)
                     then YouTubeAdapter_truncate_text title YouTubeAdapter_MAX_TITLE_LENGTH
                     else title)
        in if starts_lowercase title then capitalize_first title else title)"

text \<open>
  \<open>YouTubeAdapter._adapt_description\<close>: the description, truncated when too long. The
  checks for timestamps, links and a call to action that follow only decide a log line.
\<close>

definition YouTubeAdapter_adapt_description :: "pystr \<Rightarrow> pystr" where
  "YouTubeAdapter_adapt_description description =
     (if description = [] then []
      else if YouTubeAdapter_MAX_DESCRIPTION_LENGTH < int (length description)
      then YouTubeAdapter_truncate_text description YouTubeAdapter_MAX_DESCRIPTION_LENGTH
      else description)"

text \<open>
  \<open>YouTubeAdapter._generate_title_from_text\<close>: the first sentence, at most ten words
  and 60 characters. The title for an empty text is the literal "YouTube" followed by
  a space and the Chinese word for video.
\<close>

definition YouTubeAdapter_generate_title_from_text :: "pystr \<Rightarrow> pystr" where
  "YouTubeAdapter_generate_title_from_text text =
     (if text = [] then ascii ''YouTube '' @ [24433, 29255]
      else
        let first_sentence = strip (hd (split_on text 46));
            words = split first_sentence;
            first_sentence = (if 10 < length words
                              then join (ascii '' '') (take 10 words) @ ascii ''...''
                              else first_sentence);
            first_sentence =
              (if YouTubeAdapter_IDEAL_TITLE_LENGTH < int (length first_sentence)
               then YouTubeAdapter_truncate_text first_sentence YouTubeAdapter_IDEAL_TITLE_LENGTH
               else first_sentence)
        in if first_sentence \<noteq> [] \<and> starts_lowercase first_sentence
           then capitalize_first first_sentence else first_sentence)"

datatype format_message = Missing_image_url | Format_not_supported | Format_valid

definition YouTubeAdapter_check_thumbnail_format :: "pystr \<Rightarrow> bool \<times> format_message" where
  "YouTubeAdapter_check_thumbnail_format image_url =
     (if image_url = [] then (False, Missing_image_url)
      else
        let allowed_formats = [ascii ''.jpg'', ascii ''.jpeg'', ascii ''.png'', ascii ''.gif'',
                               ascii ''.bmp''];
            lower_url = lower image_url;
            valid_format = list_ex (\<lambda>fmt. endswith lower_url fmt) allowed_formats
        in if \<not> valid_format then (False, Format_not_supported) else (True, Format_valid))"

text \<open>
  \<open>YouTubeAdapter.adapt_to_thumbnail\<close>: an image item becomes a video item. With an
  image URL of a supported format the method assigns \<open>video_content.thumbnail_url\<close>,
  which is not a field of \<open>VideoContent\<close>. The literals are Chinese: the default title
  ("video title"), the placeholders for description and script, and the default
  thumbnail prompt ("high quality YouTube video thumbnail") with its prefix
  ("YouTube thumbnail: ").
\<close>

definition YouTubeAdapter_default_prompt :: pystr where
  "YouTubeAdapter_default_prompt =
     [39640, 21697, 36074, 32] @ ascii ''YouTube '' @ [24433, 29255, 32302, 30053, 22294]"

definition YouTubeAdapter_adapt_to_thumbnail :: "ContentItem \<Rightarrow> pyerror + adapt_result" where
  "YouTubeAdapter_adapt_to_thumbnail content_item =
     (case ci_image_content content_item of
        None \<Rightarrow> Inr (Failure Missing_image_content content_item)
      | Some image_content \<Rightarrow>
          let adapted_content = content_item\<lparr>ci_content_type := VIDEO\<rparr>;
              image_url = (case ic_image_url image_content of None \<Rightarrow> [] | Some u \<Rightarrow> u);
              image_prompt = ic_prompt image_content;
              caption = (case ic_caption image_content of None \<Rightarrow> [] | Some c \<Rightarrow> c);
              title = (if caption \<noteq> [] then YouTubeAdapter_generate_title_from_text caption
                       else [24433, 29255, 27161, 38988]);
              video_content =
                (case ci_video_content adapted_content of
                   None \<Rightarrow>
                     \<lparr>vc_title = title,
                      vc_script = [91, 38656, 35201, 25552, 20379, 24433, 29255, 33139, 26412, 93],
                      vc_description =
                        Some [91, 38656, 35201, 25552, 20379, 24433, 29255, 25551, 36848, 93],
                      vc_thumbnail_prompt = None, vc_duration_seconds = None,
                      vc_video_url = None\<rparr>
                 | Some v \<Rightarrow> v);
              prompt_or_default = (if image_prompt \<noteq> [] then image_prompt
                                   else YouTubeAdapter_default_prompt);
              assigned =
                (if image_url \<noteq> []
                 then
                   (if fst (YouTubeAdapter_check_thumbnail_format image_url)
                    then pydantic_setattr VideoContent_fields ''thumbnail_url'' video_content
                    else pydantic_setattr VideoContent_fields ''thumbnail_prompt''
                           (video_content\<lparr>vc_thumbnail_prompt :=
                              Some (ascii ''YouTube '' @ [32302, 30053, 22294, 58, 32]
                                    @ prompt_or_default)\<rparr>))
                 else pydantic_setattr VideoContent_fields ''thumbnail_prompt''
                        (video_content\<lparr>vc_thumbnail_prompt := Some prompt_or_default\<rparr>))
          in case assigned of
               Inl e \<Rightarrow> Inl e
             | Inr video_content \<Rightarrow>
                 Inr (Success (adapted_content\<lparr>ci_video_content := Some video_content\<rparr>)
                   [(''platform'', MStr ''youtube''),
                    (''content_type'', MStr ''thumbnail''),
                    (''original_type'', MStr ''image''),
                    (''has_image_url'', MBool (image_url \<noteq> [])),
                    (''has_prompt'', MBool (image_prompt \<noteq> [])),
                    (''note'', MNote YT_image_set_as_thumbnail),
                    (''recommendations'', MAdvice
                       [YT_thumbnail_size, YT_thumbnail_colours, YT_thumbnail_few_words,
                        YT_thumbnail_complements_title])]))"

subsection \<open>Reading an adaptation result\<close>

text \<open>
  \<open>result["content"]["text_content"]["text"]\<close>, \<open>result["content"]["image_content"]["caption"]\<close>
  and \<open>result["metadata"][key]\<close> of a successful result; \<open>None\<close> where the entry is absent.
\<close>

definition adapted_text :: "adapt_result \<Rightarrow> pystr option" where
  "adapted_text r =
     (case r of
        Success item meta \<Rightarrow> map_option tc_text (ci_text_content item)
      | Failure e item \<Rightarrow> None)"

definition adapted_caption :: "adapt_result \<Rightarrow> pystr option" where
  "adapted_caption r =
     (case r of
        Success item meta \<Rightarrow> Option.bind (ci_image_content item) ic_caption
      | Failure e item \<Rightarrow> None)"

definition metadata_entry :: "adapt_result \<Rightarrow> string \<Rightarrow> meta_value option" where
  "metadata_entry r key =
     (case r of
        Success item meta \<Rightarrow> map_of meta key
      | Failure e item \<Rightarrow> None)"

text \<open>A text item with the given text and no explicit hashtags, for concrete runs.\<close>

definition text_item :: "pystr \<Rightarrow> ContentItem" where
  "text_item t =
     \<lparr>ci_id = ascii ''c1'', ci_brand_id = ascii ''b1'', ci_platform = FACEBOOK,
      ci_content_type = TEXT,
      ci_text_content = Some \<lparr>tc_text = t, tc_hashtags = None, tc_mentions = None\<rparr>,
      ci_image_content = None, ci_video_content = None\<rparr>"

section \<open>The top-level adapter (content/adapter.py)\<close>

text \<open>
  \<open>PlatformAdapter.adapt_content\<close> takes the content as a raw dictionary. Its values are
  Python objects; strings, ints, booleans and \<open>None\<close> are modelled.
\<close>

datatype pyval = PyStr pystr | PyInt int | PyBool bool | PyNone

type_synonym content_dict = "pystr \<rightharpoonup> pyval"

text \<open>
  The four adapter classes, and for each the names its class body defines (constants
  and methods). Every other attribute of an instance comes from \<open>object\<close>, whose
  attributes all have names with two leading underscores.
\<close>

datatype adapter_class = InstagramAdapter | FacebookAdapter | LinkedInAdapter | YouTubeAdapter

fun class_attributes :: "adapter_class \<Rightarrow> string list" where
  "class_attributes FacebookAdapter =
     [''MAX_POST_LENGTH'', ''IDEAL_POST_LENGTH'', ''MAX_TITLE_LENGTH'', ''MAX_HASHTAGS'',
      ''MAX_DESCRIPTION_LENGTH'', ''ALLOWED_IMAGE_FORMATS'', ''__init__'', ''adapt_content'',
      ''adapt_text_content'', ''adapt_image_content'', ''adapt_video_content'',
      ''_adapt_text_length'', ''_adapt_hashtags'', ''_adapt_mentions'', ''_check_image_format'',
      ''_truncate_text'']"
| "class_attributes InstagramAdapter =
     [''MAX_CAPTION_LENGTH'', ''IDEAL_CAPTION_LENGTH'', ''MAX_HASHTAGS'', ''OPTIMAL_HASHTAGS'',
      ''ALLOWED_IMAGE_FORMATS'', ''MAX_VIDEO_LENGTH_SECONDS'', ''MAX_FEED_VIDEO_SECONDS'',
      ''ALLOWED_ASPECT_RATIOS'', ''__init__'', ''adapt_content'', ''adapt_to_caption'',
      ''adapt_image_content'', ''adapt_video_content'', ''_adapt_caption_length'',
      ''_adapt_hashtags'', ''_adapt_mentions'', ''_check_image_format'', ''_check_aspect_ratio'',
      ''_truncate_text'', ''get_preferred_image_dimensions'',
      ''get_preferred_video_dimensions'']"
| "class_attributes LinkedInAdapter =
     [''MAX_POST_LENGTH'', ''IDEAL_POST_LENGTH'', ''MAX_ARTICLE_LENGTH'',
      ''IDEAL_ARTICLE_LENGTH'', ''MAX_TITLE_LENGTH'', ''IDEAL_HEADLINE_LENGTH'',
      ''MAX_DESCRIPTION_LENGTH'', ''OPTIMAL_HASHTAGS'', ''MAX_HASHTAGS'',
      ''ALLOWED_IMAGE_FORMATS'', ''MAX_VIDEO_LENGTH_SECONDS'', ''IDEAL_VIDEO_LENGTH_SECONDS'',
      ''__init__'', ''adapt_content'', ''adapt_text_content'', ''adapt_image_content'',
      ''adapt_video_content'', ''_adapt_post_length'', ''_adapt_article_length'',
      ''_adapt_hashtags'', ''_adapt_mentions'', ''_check_image_format'', ''_truncate_text'',
      ''get_preferred_content_lengths'', ''get_professional_tone_recommendations'']"
| "class_attributes YouTubeAdapter =
     [''MAX_TITLE_LENGTH'', ''IDEAL_TITLE_LENGTH'', ''MAX_DESCRIPTION_LENGTH'',
      ''MIN_DESCRIPTION_LENGTH'', ''OPTIMAL_DESCRIPTION_LENGTH'', ''MAX_TAGS'',
      ''OPTIMAL_TAGS_COUNT'', ''MAX_TAG_LENGTH'', ''MIN_VIDEO_LENGTH_SECONDS'',
      ''IDEAL_VIDEO_LENGTH_SECONDS'', ''MAX_SHORTS_LENGTH_SECONDS'', ''MAX_FILE_SIZE_GB'',
      ''__init__'', ''adapt_content'', ''adapt_video_content'', ''adapt_to_description'',
      ''adapt_to_thumbnail'', ''_adapt_title'', ''_adapt_description'', ''_extract_tags'',
      ''_is_title_seo_optimized'', ''_is_description_seo_optimized'', ''_has_timestamps'',
      ''_has_links'', ''_has_call_to_action'', ''_check_thumbnail_format'', ''_truncate_text'',
      ''_generate_title_from_text'', ''get_optimal_video_settings'']"

text \<open>The dictionary \<open>self.adapters\<close> that \<open>PlatformAdapter.__init__\<close> builds.\<close>

definition PlatformAdapter_adapters :: "pystr \<rightharpoonup> adapter_class" where
  "PlatformAdapter_adapters =
     map_of [(ascii ''instagram'', InstagramAdapter), (ascii ''facebook'', FacebookAdapter),
             (ascii ''linkedin'', LinkedInAdapter), (ascii ''youtube'', YouTubeAdapter)]"

text \<open>
  \<open>PlatformAdapter._generic_adapt\<close>: a copy of the dictionary with the platform name
  under \<open>"platform"\<close> and a sentence appended to \<open>"notes"\<close>. The \<open>+=\<close> on the notes raises
  \<open>TypeError\<close> when the dictionary holds something other than a string there.
\<close>

definition PlatformAdapter_generic_adapt :: "content_dict \<Rightarrow> pystr \<Rightarrow> pyerror + content_dict" where
  "PlatformAdapter_generic_adapt content platform =
     (let adapted = content;
          adapted = adapted(ascii ''platform'' \<mapsto> PyStr platform);
          adapted = (if adapted (ascii ''notes'') = None
                     then adapted(ascii ''notes'' \<mapsto> PyStr []) else adapted)
      in case adapted (ascii ''notes'') of
           Some (PyStr notes) \<Rightarrow>
             Inr (adapted(ascii ''notes'' \<mapsto>
                    PyStr (notes @ [10] @ ascii ''This content has been generically adapted for ''
                           @ platform @ ascii ''.'')))
         | _ \<Rightarrow> Inl TypeError)"

text \<open>
  \<open>PlatformAdapter.adapt_content\<close>. For a registered platform the source evaluates
  \<open>self.adapters[platform].adapt(content, business_info)\<close>: the attribute \<open>adapt\<close> is
  looked up on the adapter, which raises \<open>AttributeError\<close> when the class has none, and
  is then called. What the call of a found method would return is the parameter
  \<open>call_adapt\<close>.
\<close>

definition PlatformAdapter_adapt_content ::
  "(adapter_class \<Rightarrow> content_dict \<Rightarrow> 'b \<Rightarrow> pyerror + content_dict)
     \<Rightarrow> content_dict \<Rightarrow> pystr \<Rightarrow> 'b \<Rightarrow> pyerror + content_dict" where
  "PlatformAdapter_adapt_content call_adapt content platform business_info =
     (let platform = lower platform
      in case PlatformAdapter_adapters platform of
           None \<Rightarrow> PlatformAdapter_generic_adapt content platform
         | Some adapter \<Rightarrow>
             if ''adapt'' \<in> set (class_attributes adapter)
             then call_adapt adapter content business_info
             else Inl AttributeError)"

section \<open>The brand style keeper (brand/voice_keeper.py)\<close>

text \<open>
  Python floats are modelled as real numbers: every score is computed exactly, without
  the rounding of floating point arithmetic.

  \<open>BrandStyleAttribute\<close> and \<open>BrandModel\<close> of data/schemas.py. The schema bounds the value
  of an attribute: \<open>Field(..., ge=0.0, le=1.0)\<close>. The fields of \<open>BrandModel\<close> that the keeper
  never reads (description, industry, colors, fonts, logo and the timestamps) are left
  out.
\<close>

record BrandStyleAttribute =
  attr_name :: pystr
  attr_value :: real
  attr_description :: "pystr option"

definition BrandStyleAttribute_valid :: "BrandStyleAttribute \<Rightarrow> bool" where
  "BrandStyleAttribute_valid a = (0 \<le> attr_value a \<and> attr_value a \<le> 1)"

record BrandModel =
  bm_id :: pystr
  bm_name :: pystr
  bm_target_audience :: "pystr list option"
  bm_keywords :: "pystr list"
  bm_style_attributes :: "BrandStyleAttribute list"

text \<open>
  The tokenizers of NLTK (\<open>sent_tokenize\<close>, \<open>word_tokenize\<close>) are not part of the
  repository; the keeper is modelled over any pair of them.
\<close>

record nltk =
  sent_tokenize :: "pystr \<Rightarrow> pystr list"
  word_tokenize :: "pystr \<Rightarrow> pystr list"

text \<open>
  The keeper object: its brand model and its language model, each possibly \<open>None\<close>. Of
  the external language model only \<open>score_text\<close> is used by \<open>check_consistency\<close>.
\<close>

record BrandStyleKeeper =
  brand_model :: "BrandModel option"
  language_model :: "(pystr \<Rightarrow> real) option"

datatype keyword_details =
    Keywords_not_configured
  | Keyword_coverage "pystr list" "pystr list" "nat \<times> nat"

text \<open>\<open>keyword_details.get("missing_keywords", [])\<close>.\<close>

fun missing_keywords :: "keyword_details \<Rightarrow> pystr list" where
  "missing_keywords Keywords_not_configured = []"
| "missing_keywords (Keyword_coverage found missing coverage) = missing"

text \<open>
  \<open>BrandStyleKeeper._check_keywords\<close>: a keyword is found when its lower-cased form
  occurs in the lower-cased content. (The token set the method computes first is never
  read.) The first result is the score, the second the details dictionary.
\<close>

definition check_keywords :: "BrandStyleKeeper \<Rightarrow> pystr \<Rightarrow> real \<times> keyword_details" where
  "check_keywords self content =
     (case brand_model self of
        None \<Rightarrow> (1, Keywords_not_configured)
      | Some bm \<Rightarrow>
          if bm_keywords bm = [] then (1, Keywords_not_configured)
          else
            let found_keywords =
                  filter (\<lambda>keyword. contains (lower content) (lower keyword)) (bm_keywords bm);
                missing_keywords =
                  filter (\<lambda>keyword. \<not> contains (lower content) (lower keyword)) (bm_keywords bm);
                score = real (length found_keywords) / real (length (bm_keywords bm))
            in (score, Keyword_coverage found_keywords missing_keywords
                         (length found_keywords, length (bm_keywords bm))))"

datatype sentence_length_details =
    No_content
  | Sentence_lengths real real nat nat nat

text \<open>\<open>details.get("avg_length", 0)\<close> and \<open>details.get("ideal_length", 15)\<close>.\<close>

fun avg_length :: "sentence_length_details \<Rightarrow> real" where
  "avg_length No_content = 0"
| "avg_length (Sentence_lengths avg ideal shortest longest n) = avg"

fun ideal_length :: "sentence_length_details \<Rightarrow> real" where
  "ideal_length No_content = 15"
| "ideal_length (Sentence_lengths avg ideal shortest longest n) = ideal"

text \<open>The average number of word tokens per sentence, for a non-empty list of sentences.\<close>

definition average_sentence_length :: "nltk \<Rightarrow> pystr list \<Rightarrow> real" where
  "average_sentence_length nl sentences =
     real (sum_list (map (\<lambda>s. length (word_tokenize nl s)) sentences))
       / real (length sentences)"

text \<open>
  The loop of \<open>_check_sentence_length\<close> over the style attributes: the last attribute
  named concise or brief, or detailed or elaborate (in English or Chinese), sets the
  ideal sentence length; 15 is the start value.
\<close>

definition ideal_sentence_length :: "BrandStyleAttribute list \<Rightarrow> real" where
  "ideal_sentence_length attrs =
     fold (\<lambda>attr ideal.
             if lower (attr_name attr) \<in> set [[31777, 28500], [31777, 30701],
                                              ascii ''concise'', ascii ''brief'']
             then 10 * (1 - attr_value attr) + 6
             else if lower (attr_name attr) \<in> set [[35443, 32048], [35443, 30433],
                                                   ascii ''detailed'', ascii ''elaborate'']
             then 15 + 10 * attr_value attr
             else ideal)
          attrs 15"

definition check_sentence_length ::
  "nltk \<Rightarrow> BrandStyleKeeper \<Rightarrow> pystr \<Rightarrow> real \<times> sentence_length_details" where
  "check_sentence_length nl self content =
     (let sentences = sent_tokenize nl content
      in case map (\<lambda>s. length (word_tokenize nl s)) sentences of
           [] \<Rightarrow> (0, No_content)
         | l # ls \<Rightarrow>
             let avg = average_sentence_length nl sentences;
                 ideal = ideal_sentence_length
                   (case brand_model self of None \<Rightarrow> [] | Some bm \<Rightarrow> bm_style_attributes bm);
                 deviation = \<bar>avg - ideal\<bar> / ideal;
                 score = max 0 (1 - deviation)
             in (score, Sentence_lengths avg ideal (fold min ls l) (fold max ls l)
                          (length sentences)))"

subsection \<open>The evaluators of the style attributes\<close>

text \<open>The sum of \<open>s.count(marker)\<close> over a list of markers.\<close>

definition count_markers :: "pystr \<Rightarrow> pystr list \<Rightarrow> nat" where
  "count_markers s markers = sum_list (map (\<lambda>marker. count s marker) markers)"

text \<open>
  The average sentence length as \<open>_evaluate_formality\<close> computes it: 0 for a text without
  sentences.
\<close>

definition average_or_zero :: "nltk \<Rightarrow> pystr \<Rightarrow> real" where
  "average_or_zero nl content =
     (let sentences = sent_tokenize nl content
      in if sentences = [] then 0 else average_sentence_length nl sentences)"

definition evaluate_formality :: "nltk \<Rightarrow> pystr \<Rightarrow> real" where
  "evaluate_formality nl content =
     (let formal_markers = map ascii
            [''furthermore'', ''therefore'', ''consequently'', ''nevertheless'', ''regarding'',
             ''accordingly'', ''hereby'', ''thus'', ''hence'', ''wherein''];
          informal_markers = map ascii
            [''anyway'', ''well'', ''you know'', ''kind of'', ''sort of'', ''like'', ''stuff'',
             ''thing'', ''okay'', ''OK'', ''guys'', ''pretty'', ''really'', ''gonna'', ''wanna''];
          content_lower = lower content;
          formal_count = count_markers content_lower formal_markers;
          informal_count = count_markers content_lower informal_markers;
          contractions = [ascii ''n'' @ [39] @ ascii ''t'', [39] @ ascii ''ll'',
                          [39] @ ascii ''re'', [39] @ ascii ''ve'', [39] @ ascii ''m'',
                          [39] @ ascii ''d''];
          contraction_count = count_markers content_lower contractions;
          informal_count = informal_count + contraction_count
      in if formal_count + informal_count = 0 then 0.5
         else
           let formality_score = real formal_count / real (formal_count + informal_count);
               avg = average_or_zero nl content;
               length_factor = min 1 (avg / 20)
           in 0.7 * formality_score + 0.3 * length_factor)"

definition evaluate_professionalism :: "nltk \<Rightarrow> pystr \<Rightarrow> real" where
  "evaluate_professionalism nl content =
     (let content_lower = lower content;
          professional_markers = map ascii
            [''analysis'', ''research'', ''data'', ''methodology'', ''results'', ''implement'',
             ''strategy'', ''objective'', ''criteria'', ''evaluation''];
          marker_count = count_markers content_lower professional_markers;
          word_count = length (word_tokenize nl content_lower)
      in if word_count = 0 then 0
         else min 1 (real marker_count / real word_count * 20))"

definition evaluate_humor :: "pystr \<Rightarrow> real" where
  "evaluate_humor content =
     (let content_lower = lower content;
          humor_markers = map ascii
            [''laugh'', ''funny'', ''joke'', ''humor'', ''witty'', ''haha'', ''lol'', ''smile'',
             ''amusing'', ''hilarious'', ''ironic'', ''sarcastic'', ''playful'', ''teasing''];
          exclamations = count content (ascii ''!'');
          questions = count content (ascii ''?'');
          marker_count = count_markers content_lower humor_markers
      in min 1 (real marker_count * 0.3 + real exclamations * 0.1 + real questions * 0.05))"

definition evaluate_emotion :: "nltk \<Rightarrow> pystr \<Rightarrow> real" where
  "evaluate_emotion nl content =
     (let content_lower = lower content;
          emotional_words = map ascii
            [''love'', ''hate'', ''excited'', ''thrilled'', ''amazing'', ''terrible'',
             ''wonderful'', ''awful'', ''delighted'', ''disappointed'', ''happy'', ''sad'',
             ''angry'', ''joyful'', ''proud'', ''ashamed'', ''grateful'', ''hurt'', ''inspired'',
             ''devastated''];
          exclamations = count content (ascii ''!'');
          emotion_count = count_markers content_lower emotional_words;
          word_count = length (word_tokenize nl content_lower)
      in if word_count = 0 then 0
         else min 1 (real emotion_count / real word_count * 15 + real exclamations * 0.1))"

definition evaluate_conciseness :: "nltk \<Rightarrow> pystr \<Rightarrow> real" where
  "evaluate_conciseness nl content =
     (let sentences = sent_tokenize nl content
      in if sentences = [] then 0
         else
           let avg = average_sentence_length nl sentences;
               content_lower = lower content;
               filler_words = map ascii
                 [''basically'', ''actually'', ''literally'', ''virtually'', ''definitely'',
                  ''certainly'', ''probably'', ''essentially'', ''totally'', ''completely'',
                  ''absolutely'', ''really'', ''very'', ''quite'', ''somewhat'', ''rather''];
               filler_count = count_markers content_lower filler_words;
               length_factor = max 0 (1 - avg / 20);
               filler_factor = max 0 (1 - real filler_count / 10)
           in 0.7 * length_factor + 0.3 * filler_factor)"

definition evaluate_directness :: "nltk \<Rightarrow> pystr \<Rightarrow> real" where
  "evaluate_directness nl content =
     (let content_lower = lower content;
          indirect_markers = map ascii
            [''perhaps'', ''maybe'', ''might'', ''could'', ''possibly'', ''potentially'',
             ''seemingly'', ''appears to'', ''it seems'', ''somewhat'', ''rather'', ''in a sense'',
             ''from a certain perspective'', ''one might say''];
          direct_markers = map ascii
            [''definitely'', ''absolutely'', ''certainly'', ''clearly'', ''obviously'',
             ''without doubt'', ''must'', ''always'', ''never'', ''undoubtedly''];
          sentences = sent_tokenize nl content;
          question_count = length (filter (\<lambda>s. endswith (strip s) (ascii ''?'')) sentences);
          question_ratio = (if sentences = [] then 0
                            else real question_count / real (length sentences));
          indirect_count = count_markers content_lower indirect_markers;
          direct_count = count_markers content_lower direct_markers;
          total_markers = indirect_count + direct_count;
          marker_score = (if total_markers = 0 then 0.5
                          else real direct_count / real total_markers)
      in marker_score * (1 - question_ratio * 0.5))"

text \<open>
  The advice \<open>_evaluate_attribute\<close> returns next to the score: a fixed Chinese sentence
  per evaluator and direction, or a sentence that names the attribute.
\<close>

datatype style_advice =
    More_formal | Less_formal
  | More_professional | Less_professional
  | More_humorous | Less_humorous
  | More_emotional | Less_emotional
  | More_concise | Less_concise
  | More_direct | Less_direct
  | Adjust_attribute pystr

text \<open>
  \<open>BrandStyleKeeper._evaluate_attribute\<close>: the evaluator is chosen by the lower-cased
  name of the attribute, in Chinese or English; an unknown name measures 0.5.
\<close>

definition evaluate_attribute :: "nltk \<Rightarrow> pystr \<Rightarrow> pystr \<Rightarrow> real \<Rightarrow> real \<times> style_advice" where
  "evaluate_attribute nl content attribute target_value =
     (let attribute_lower = lower attribute;
          (score, suggestion) =
            (if attribute_lower \<in> set [[27491, 24335], ascii ''formal'']
             then (let score = evaluate_formality nl content
                   in (score, if score < target_value then More_formal else Less_formal))
             else if attribute_lower \<in> set [[23560, 26989], ascii ''professional'']
             then (let score = evaluate_professionalism nl content
                   in (score, if score < target_value then More_professional
                              else Less_professional))
             else if attribute_lower \<in> set [[24189, 40664], ascii ''humorous'']
             then (let score = evaluate_humor content
                   in (score, if score < target_value then More_humorous else Less_humorous))
             else if attribute_lower \<in> set [[24773, 24863], ascii ''emotional'']
             then (let score = evaluate_emotion nl content
                   in (score, if score < target_value then More_emotional else Less_emotional))
             else if attribute_lower \<in> set [[31777, 28500], ascii ''concise'']
             then (let score = evaluate_conciseness nl content
                   in (score, if score < target_value then More_concise else Less_concise))
             else if attribute_lower \<in> set [[30452, 25509], ascii ''direct'']
             then (let score = evaluate_directness nl content
                   in (score, if score < target_value then More_direct else Less_direct))
             else (0.5, Adjust_attribute attribute));
          gap = \<bar>score - target_value\<bar>;
          final_score = max 0 (1 - gap)
      in (final_score, suggestion))"

record attribute_detail =
  ad_target_value :: real
  ad_score :: real
  ad_suggestion :: style_advice

text \<open>\<open>d[k] = v\<close> on a dictionary kept in insertion order.\<close>

fun dict_set :: "'k \<Rightarrow> 'v \<Rightarrow> ('k \<times> 'v) list \<Rightarrow> ('k \<times> 'v) list" where
  "dict_set k v [] = [(k, v)]"
| "dict_set k v (p # ps) = (if fst p = k then (k, v) # ps else p # dict_set k v ps)"

datatype style_details =
    Style_not_configured
  | Style_attributes "(pystr \<times> attribute_detail) list" real

text \<open>\<open>style_details.get("attributes", {}).items()\<close>.\<close>

fun attribute_items :: "style_details \<Rightarrow> (pystr \<times> attribute_detail) list" where
  "attribute_items Style_not_configured = []"
| "attribute_items (Style_attributes attributes overall) = attributes"

text \<open>
  The loop of \<open>_check_style_attributes\<close>: the dictionary of details and the sum of the
  scores, attribute by attribute.
\<close>

definition style_step ::
  "nltk \<Rightarrow> pystr \<Rightarrow> BrandStyleAttribute
     \<Rightarrow> (pystr \<times> attribute_detail) list \<times> real \<Rightarrow> (pystr \<times> attribute_detail) list \<times> real" where
  "style_step nl content attr acc =
     (let (attributes, total_score) = acc;
          (attr_score, suggestion) =
             evaluate_attribute nl content (attr_name attr) (attr_value attr)
      in (dict_set (attr_name attr)
            \<lparr>ad_target_value = attr_value attr, ad_score = attr_score,
             ad_suggestion = suggestion\<rparr> attributes,
          total_score + attr_score))"

definition check_style_attributes ::
  "nltk \<Rightarrow> BrandStyleKeeper \<Rightarrow> pystr \<Rightarrow> real \<times> style_details" where
  "check_style_attributes nl self content =
     (case brand_model self of
        None \<Rightarrow> (1, Style_not_configured)
      | Some bm \<Rightarrow>
          if bm_style_attributes bm = [] then (1, Style_not_configured)
          else
            let (attributes, total_score) =
                   fold (style_step nl content) (bm_style_attributes bm) ([], 0);
                avg_score = total_score / real (length (bm_style_attributes bm))
            in (avg_score, Style_attributes attributes avg_score))"

subsection \<open>check_consistency\<close>

record weights =
  w_keywords :: real
  w_sentence_length :: real
  w_style :: real
  w_model :: real

text \<open>
  The dictionary \<open>weights\<close> of \<open>check_consistency\<close>, as the source builds it: first the
  weights for the case with a language model, then the adjustment without one.
\<close>

definition consistency_weights :: "bool \<Rightarrow> weights" where
  "consistency_weights has_language_model =
     (let weights = \<lparr>w_keywords = 0.2, w_sentence_length = 0.1, w_style = 0.3,
                      w_model = (if has_language_model then 0.4 else 0.0)\<rparr>
      in if \<not> has_language_model
         then weights\<lparr>w_keywords := 0.4, w_sentence_length := 0.2, w_style := 0.4\<rparr>
         else weights)"

text \<open>
  The suggestions are Chinese sentences; each constructor is one sentence of the source,
  with the keywords, or the attribute and its advice, that the sentence names.
\<close>

datatype suggestion =
    Set_brand_model_first
  | Add_keywords "pystr list"
  | Shorten_sentences
  | Lengthen_sentences
  | Strengthen_style pystr style_advice
  | Recreate_content
  | Revise_content

record details =
  d_keywords :: keyword_details
  d_sentence_length :: sentence_length_details
  d_style :: style_details
  d_model_score :: "real option"

record ConsistencyResult =
  consistency_score :: real
  suggestions :: "suggestion list"
  details :: "details option"

definition keyword_suggestions :: "BrandModel \<Rightarrow> real \<Rightarrow> keyword_details \<Rightarrow> suggestion list" where
  "keyword_suggestions bm keyword_score keyword_details =
     (if keyword_score < 0.5 \<and> bm_keywords bm \<noteq> []
      then (let missing = missing_keywords keyword_details
            in if missing \<noteq> [] then [Add_keywords (take 3 missing)] else [])
      else [])"

definition sentence_length_suggestions :: "real \<Rightarrow> sentence_length_details \<Rightarrow> suggestion list" where
  "sentence_length_suggestions sentence_length_score sentence_length_details =
     (if sentence_length_score < 0.5
      then (if ideal_length sentence_length_details < avg_length sentence_length_details
            then [Shorten_sentences] else [Lengthen_sentences])
      else [])"

definition style_suggestions :: "real \<Rightarrow> style_details \<Rightarrow> suggestion list" where
  "style_suggestions style_score style_details =
     (if style_score < 0.5
      then map (\<lambda>(attr, detail). Strengthen_style attr (ad_suggestion detail))
             (filter (\<lambda>(attr, detail). ad_score detail < 0.4) (attribute_items style_details))
      else [])"

definition overall_suggestions :: "real \<Rightarrow> suggestion list" where
  "overall_suggestions total_score =
     (if total_score < 0.4 then [Recreate_content]
      else if total_score < 0.7 then [Revise_content]
      else [])"

text \<open>
  \<open>BrandStyleKeeper.check_consistency\<close>. The argument \<open>content_type\<close> of the source is
  never read and is left out.
\<close>

definition check_consistency :: "nltk \<Rightarrow> BrandStyleKeeper \<Rightarrow> pystr \<Rightarrow> ConsistencyResult" where
  "check_consistency nl self content =
     (case brand_model self of
        None \<Rightarrow> \<lparr>consistency_score = 0, suggestions = [Set_brand_model_first],
                 details = None\<rparr>
      | Some bm \<Rightarrow>
          let (keyword_score, keyword_details) = check_keywords self content;
              (sentence_length_score, sentence_length_details) =
                 check_sentence_length nl self content;
              (style_score, style_details) = check_style_attributes nl self content;
              model_score = (case language_model self of None \<Rightarrow> 0
                             | Some score_text \<Rightarrow> score_text content);
              weights = consistency_weights (language_model self \<noteq> None);
              total_score = keyword_score * w_keywords weights
                          + sentence_length_score * w_sentence_length weights
                          + style_score * w_style weights
                          + model_score * w_model weights
          in \<lparr>consistency_score = total_score,
              suggestions =
                keyword_suggestions bm keyword_score keyword_details
                @ sentence_length_suggestions sentence_length_score sentence_length_details
                @ style_suggestions style_score style_details
                @ overall_suggestions total_score,
              details = Some \<lparr>d_keywords = keyword_details,
                               d_sentence_length = sentence_length_details,
                               d_style = style_details,
                               d_model_score = map_option (\<lambda>score_text. score_text content)
                                                 (language_model self)\<rparr>\<rparr>)"

text \<open>
  Stand-ins for the NLTK tokenizers, used only to run the keeper on concrete texts: the
  whole text as one sentence (none for a blank text), and the words between whitespace.
\<close>

definition example_nltk :: nltk where
  "example_nltk =
     \<lparr>sent_tokenize = (\<lambda>s. if strip s = [] then [] else [s]),
      word_tokenize = split\<rparr>"

text \<open>
  A brand model, a language model that scores every text 0.9, and two keepers, used to
  run \<open>check_consistency\<close> on concrete inputs.
\<close>

definition example_brand :: BrandModel where
  "example_brand =
     \<lparr>bm_id = ascii ''b1'', bm_name = ascii ''Leaf'', bm_target_audience = None,
      bm_keywords = [ascii ''eco'', ascii ''green''],
      bm_style_attributes =
        [\<lparr>attr_name = ascii ''Formal'', attr_value = 0.8, attr_description = None\<rparr>,
         \<lparr>attr_name = ascii ''concise'', attr_value = 0.3, attr_description = None\<rparr>,
         \<lparr>attr_name = ascii ''bold'', attr_value = 0.5, attr_description = None\<rparr>]\<rparr>"

definition example_language_model :: "pystr \<Rightarrow> real" where
  "example_language_model content = 0.9"

definition example_keeper :: BrandStyleKeeper where
  "example_keeper =
     \<lparr>brand_model = Some example_brand, language_model = Some example_language_model\<rparr>"

definition empty_brand_keeper :: BrandStyleKeeper where
  "empty_brand_keeper =
     \<lparr>brand_model = Some \<lparr>bm_id = ascii ''b0'', bm_name = ascii ''Blank'',
                           bm_target_audience = None, bm_keywords = [],
                           bm_style_attributes = []\<rparr>,
      language_model = None\<rparr>"

text \<open>The suggestions of \<open>check_consistency\<close> that name missing keywords.\<close>

fun is_keyword_suggestion :: "suggestion \<Rightarrow> bool" where
  "is_keyword_suggestion (Add_keywords keywords) = True"
| "is_keyword_suggestion other = False"

text \<open>The keeper of the scenario with the keywords eco and green and nothing else.\<close>

definition eco_green_keeper :: BrandStyleKeeper where
  "eco_green_keeper =
     \<lparr>brand_model = Some \<lparr>bm_id = ascii ''b2'', bm_name = ascii ''Moss'',
                           bm_target_audience = None,
                           bm_keywords = [ascii ''eco'', ascii ''green''],
                           bm_style_attributes = []\<rparr>,
      language_model = None\<rparr>"

section \<open>Facts about the string operations\<close>

lemma length_strip_le: "length (strip s) \<le> length s"
proof -
  have "length (strip s) \<le> length (dropWhile isspace s)"
    unfolding strip_def by (simp add: length_dropWhile_le order_trans [OF length_dropWhile_le])
  also have "\<dots> \<le> length s"
    by (rule length_dropWhile_le)
  finally show ?thesis .
qed

lemma length_slice_to_le: "0 \<le> k \<Longrightarrow> int (length (slice_to s k)) \<le> k"
  by (simp add: slice_to_def)

lemma length_slice_to_le_length: "length (slice_to s k) \<le> length s"
  by (auto simp: slice_to_def)


lemma rfind_found_bound:
  "0 \<le> rfind s sub \<Longrightarrow> rfind s sub + int (length sub) \<le> int (length s)"
proof (induction s)
  case Nil
  then show ?case by (simp split: if_splits)
next
  case (Cons c cs)
  show ?case
  proof (cases "0 \<le> rfind cs sub")
    case True
    with Cons.IH show ?thesis by (simp add: Let_def)
  next
    case False
    with Cons.prems have sw: "startswith (c # cs) sub"
      by (simp add: Let_def split: if_splits)
    have "length sub \<le> length (c # cs)"
    proof -
      have "length sub = length (take (length sub) (c # cs))"
        using sw by (simp add: startswith_def)
      also have "\<dots> \<le> length (c # cs)"
        by (simp del: take_Suc_Cons)
      finally show ?thesis .
    qed
    with False sw show ?thesis by (simp add: Let_def)
  qed
qed

lemma beyond_70_percent_positive:
  assumes "0 \<le> max_length" and "beyond_70_percent pos max_length"
  shows "0 < pos"
proof -
  have "0 \<le> times_0_7_scaled max_length"
    using assms(1) by (simp add: times_0_7_scaled_def)
  with assms(2) have "0 < pos * 2 ^ 52"
    unfolding beyond_70_percent_def by linarith
  then show ?thesis
    by (simp add: zero_less_mult_iff)
qed

lemma length_LinkedInAdapter_marker: "length LinkedInAdapter_marker = 16"
  by (simp add: LinkedInAdapter_marker_def ascii_def)

lemma length_space_truncation:
  assumes "1 \<le> max_length"
  shows "int (length (strip
            (if 0 < rfind (slice_to text max_length) sub
             then slice_to (slice_to text max_length) (rfind (slice_to text max_length) sub)
             else slice_to text max_length))) \<le> max_length"
proof -
  let ?t = "slice_to text max_length"
  have t: "int (length ?t) \<le> max_length"
    using assms by (simp add: length_slice_to_le)
  have "length (if 0 < rfind ?t sub then slice_to ?t (rfind ?t sub) else ?t) \<le> length ?t"
    by (simp add: length_slice_to_le_length)
  then have "length (strip (if 0 < rfind ?t sub then slice_to ?t (rfind ?t sub) else ?t))
               \<le> length ?t"
    using length_strip_le order_trans by blast
  with t show ?thesis by linarith
qed

lemma length_sentence_truncation:
  assumes "1 \<le> max_length" and "length s1 = 2" and "length s2 = 2" and "length s3 = 2"
    and "0 \<le> max (max (rfind (slice_to text max_length) s1) (rfind (slice_to text max_length) s2))
                  (rfind (slice_to text max_length) s3)"
  shows "int (length (strip (slice_to (slice_to text max_length)
            (max (max (rfind (slice_to text max_length) s1) (rfind (slice_to text max_length) s2))
                 (rfind (slice_to text max_length) s3) + 1)))) + 1 \<le> max_length"
proof -
  let ?t = "slice_to text max_length"
  let ?m = "max (max (rfind ?t s1) (rfind ?t s2)) (rfind ?t s3)"
  have t: "int (length ?t) \<le> max_length"
    using assms(1) by (simp add: length_slice_to_le)
  have "?m + 2 \<le> int (length ?t)"
    using assms(2-5) rfind_found_bound [of ?t s1] rfind_found_bound [of ?t s2]
      rfind_found_bound [of ?t s3]
    by (auto simp: max_def split: if_splits)
  moreover have "int (length (slice_to ?t (?m + 1))) \<le> ?m + 1"
    using assms(5) by (intro length_slice_to_le) linarith
  moreover have "length (strip (slice_to ?t (?m + 1))) \<le> length (slice_to ?t (?m + 1))"
    by (rule length_strip_le)
  ultimately show ?thesis using t by linarith
qed

section \<open>The length bound of truncation\<close>

text \<open>
  Claim C4. For every text and every \<open>max_length \<ge> 1\<close>, the truncate operation of each
  platform adapter returns the text unchanged when \<open>len(text) \<le> max_length\<close>, and
  otherwise a result of length at most \<open>max_length\<close> plus the length of that adapter's
  continuation marker: \<open>"..."\<close> for Facebook, Instagram and YouTube, the 16 code points
  of \<open>LinkedInAdapter_marker\<close> for LinkedIn.
\<close>

theorem truncate_text_length_bound:
  assumes "1 \<le> max_length"
  shows "(int (length text) \<le> max_length \<longrightarrow>
            FacebookAdapter_truncate_text text max_length = text
          \<and> InstagramAdapter_truncate_text text max_length = text
          \<and> YouTubeAdapter_truncate_text text max_length = text
          \<and> LinkedInAdapter_truncate_text text max_length = text)
       \<and> (max_length < int (length text) \<longrightarrow>
            int (length (FacebookAdapter_truncate_text text max_length))
              \<le> max_length + int (length (ascii ''...''))
          \<and> int (length (InstagramAdapter_truncate_text text max_length))
              \<le> max_length + int (length (ascii ''...''))
          \<and> int (length (YouTubeAdapter_truncate_text text max_length))
              \<le> max_length + int (length (ascii ''...''))
          \<and> int (length (LinkedInAdapter_truncate_text text max_length))
              \<le> max_length + int (length LinkedInAdapter_marker))"
proof (intro conjI impI)
  assume le: "int (length text) \<le> max_length"
  show "FacebookAdapter_truncate_text text max_length = text"
    using le by (simp add: FacebookAdapter_truncate_text_def)
  show "InstagramAdapter_truncate_text text max_length = text"
    using le by (simp add: InstagramAdapter_truncate_text_def)
  show "YouTubeAdapter_truncate_text text max_length = text"
    using le by (simp add: YouTubeAdapter_truncate_text_def)
  show "LinkedInAdapter_truncate_text text max_length = text"
    using le by (simp add: LinkedInAdapter_truncate_text_def)
next
  assume gt: "max_length < int (length text)"
  let ?t = "slice_to text max_length"
  let ?sp = "rfind ?t (ascii '' '')"
  let ?cut = "strip (if 0 < ?sp then slice_to ?t ?sp else ?t)"
  let ?ls = "max (max (rfind ?t (ascii ''. '')) (rfind ?t (ascii ''! ''))) (rfind ?t (ascii ''? ''))"
  have cut: "int (length ?cut) \<le> max_length"
    by (rule length_space_truncation [OF assms])
  have sentence: "int (length (strip (slice_to ?t (?ls + 1)))) + 1 \<le> max_length"
    if "beyond_70_percent ?ls max_length"
  proof -
    from that assms have "0 \<le> ?ls"
      using beyond_70_percent_positive [of max_length ?ls] by linarith
    then show ?thesis
      by (intro length_sentence_truncation [OF assms]) (simp_all add: ascii_def)
  qed
  have dots: "length (ascii ''...'') = 3"
    by (simp add: ascii_def)
  show "int (length (FacebookAdapter_truncate_text text max_length))
          \<le> max_length + int (length (ascii ''...''))"
    using gt cut by (simp add: FacebookAdapter_truncate_text_def Let_def dots split: if_splits)
  show "int (length (InstagramAdapter_truncate_text text max_length))
          \<le> max_length + int (length (ascii ''...''))"
    using gt cut by (simp add: InstagramAdapter_truncate_text_def Let_def dots split: if_splits)
  show "int (length (YouTubeAdapter_truncate_text text max_length))
          \<le> max_length + int (length (ascii ''...''))"
  proof (cases "beyond_70_percent ?ls max_length")
    case True
    with gt sentence show ?thesis
      by (simp add: YouTubeAdapter_truncate_text_def Let_def dots)
  next
    case False
    with gt cut show ?thesis
      by (simp add: YouTubeAdapter_truncate_text_def Let_def dots split: if_splits)
  qed
  show "int (length (LinkedInAdapter_truncate_text text max_length))
          \<le> max_length + int (length LinkedInAdapter_marker)"
  proof (cases "contains (slice_to text (max_length - 50)) [10, 10]
                 \<and> beyond_70_percent (rfind ?t [10, 10]) max_length")
    case True
    have "length (strip (slice_to ?t (rfind ?t [10, 10]))) \<le> length ?t"
      using length_strip_le length_slice_to_le_length order_trans by blast
    moreover have "int (length ?t) \<le> max_length"
      using assms by (simp add: length_slice_to_le)
    ultimately have "int (length (strip (slice_to ?t (rfind ?t [10, 10])))) \<le> max_length"
      by linarith
    with gt True show ?thesis
      by (simp add: LinkedInAdapter_truncate_text_def Let_def)
  next
    case no_para: False
    show ?thesis
    proof (cases "beyond_70_percent ?ls max_length")
      case True
      have "length (ascii '' '') = 1"
        by (simp add: ascii_def)
      with gt no_para True sentence show ?thesis
        by (auto simp: LinkedInAdapter_truncate_text_def Let_def)
    next
      case False
      with gt no_para cut show ?thesis
        by (auto simp: LinkedInAdapter_truncate_text_def Let_def split: if_splits)
    qed
  qed
qed

theorem truncate_text_length_bound_witness:
  "(1::int) \<le> 8 \<and> 8 < int (length (ascii ''hello big. world''))
   \<and> int (length (FacebookAdapter_truncate_text (ascii ''hello big. world'') 8))
        \<le> 8 + int (length (ascii ''...''))
   \<and> int (length (InstagramAdapter_truncate_text (ascii ''hello big. world'') 8))
        \<le> 8 + int (length (ascii ''...''))
   \<and> int (length (YouTubeAdapter_truncate_text (ascii ''hello big. world'') 8))
        \<le> 8 + int (length (ascii ''...''))
   \<and> int (length (LinkedInAdapter_truncate_text (ascii ''hello big. world'') 8))
        \<le> 8 + int (length LinkedInAdapter_marker)"
  using truncate_text_length_bound [of 8 "ascii ''hello big. world''"]
  by (simp add: ascii_def)

section \<open>The top-level dispatch\<close>

lemma registered_platform_raises:
  "PlatformAdapter_adapters (lower platform) = Some adapter \<Longrightarrow>
     PlatformAdapter_adapt_content call_adapt content platform business_info = Inl AttributeError"
  by (cases adapter) (simp_all add: PlatformAdapter_adapt_content_def)

lemma generic_adapt_without_notes:
  "content (ascii ''notes'') = None \<Longrightarrow>
     PlatformAdapter_generic_adapt content platform =
       Inr (content(ascii ''platform'' \<mapsto> PyStr platform,
                    ascii ''notes'' \<mapsto> PyStr ([10] @ ascii ''This content has been generically adapted for ''
                                             @ platform @ ascii ''.'')))"
  by (simp add: PlatformAdapter_generic_adapt_def ascii_def)

text \<open>
  Claim C1, at the four registered platforms. The claim says that \<open>adapt_content\<close>
  dispatches to the registered adapter and returns its adaptation result. The code looks
  up a method \<open>adapt\<close>, which none of the four adapter classes defines (their entry point
  is \<open>adapt_content\<close>), so for every content dictionary, and whatever a method \<open>adapt\<close>
  would do, the call raises \<open>AttributeError\<close>. Only the fallback for other platform names
  returns.
\<close>

theorem adapt_content_registered_platform_raises:
  "PlatformAdapter_adapt_content call_adapt content (ascii ''facebook'') business_info
     = Inl AttributeError
   \<and> PlatformAdapter_adapt_content call_adapt content (ascii ''Instagram'') business_info
     = Inl AttributeError
   \<and> PlatformAdapter_adapt_content call_adapt content (ascii ''linkedin'') business_info
     = Inl AttributeError
   \<and> PlatformAdapter_adapt_content call_adapt content (ascii ''YOUTUBE'') business_info
     = Inl AttributeError
   \<and> PlatformAdapter_adapt_content call_adapt Map.empty (ascii ''Twitter'') business_info
     = Inr [ascii ''platform'' \<mapsto> PyStr (ascii ''twitter''),
            ascii ''notes'' \<mapsto> PyStr ([10] @
              ascii ''This content has been generically adapted for twitter.'')]"
  by (simp add: PlatformAdapter_adapt_content_def PlatformAdapter_adapters_def
      PlatformAdapter_generic_adapt_def lower_def lower_char_def ascii_def)

section \<open>Exceptions raised by adapter entry points\<close>

lemma instagram_video_without_duration_raises:
  "InstagramAdapter_adapt_video_content uni
     (content_item\<lparr>ci_video_content := Some (video_content\<lparr>vc_duration_seconds := None\<rparr>)\<rparr>)
   = Inl TypeError"
  by (simp add: InstagramAdapter_adapt_video_content_def py_greater_def Let_def
      split: prod.splits)

text \<open>
  Claim C2, at two well-formed items. The claim says that no entry point raises, in
  particular for a video item without \<open>duration_seconds\<close> and for an image item sent to
  YouTube's thumbnail adaptation with a valid image URL. On the first,
  \<open>InstagramAdapter.adapt_video_content\<close> raises \<open>TypeError\<close> (it compares \<open>None\<close> with 60
  when it fills \<open>"video_type"\<close>); on the second, \<open>YouTubeAdapter.adapt_to_thumbnail\<close> raises
  \<open>ValueError\<close> (it assigns \<open>thumbnail_url\<close>, which \<open>VideoContent\<close> does not declare).
\<close>

theorem adapter_entry_points_raise:
  "InstagramAdapter_adapt_video_content ascii_only
     \<lparr>ci_id = ascii ''c1'', ci_brand_id = ascii ''b1'', ci_platform = INSTAGRAM,
      ci_content_type = VIDEO, ci_text_content = None, ci_image_content = None,
      ci_video_content = Some
        \<lparr>vc_title = ascii ''Launch'', vc_script = ascii ''Scene one'',
         vc_description = Some (ascii ''Our launch video''), vc_thumbnail_prompt = None,
         vc_duration_seconds = None, vc_video_url = None\<rparr>\<rparr>
   = Inl TypeError
   \<and> YouTubeAdapter_adapt_to_thumbnail
     \<lparr>ci_id = ascii ''c2'', ci_brand_id = ascii ''b1'', ci_platform = YOUTUBE,
      ci_content_type = IMAGE, ci_text_content = None,
      ci_image_content = Some
        \<lparr>ic_prompt = ascii ''a cat'', ic_image_url = Some (ascii ''https://example.com/cat.png''),
         ic_alt_text = None, ic_caption = None\<rparr>,
      ci_video_content = None\<rparr>
   = Inl ValueError"
proof
  show "InstagramAdapter_adapt_video_content ascii_only
     \<lparr>ci_id = ascii ''c1'', ci_brand_id = ascii ''b1'', ci_platform = INSTAGRAM,
      ci_content_type = VIDEO, ci_text_content = None, ci_image_content = None,
      ci_video_content = Some
        \<lparr>vc_title = ascii ''Launch'', vc_script = ascii ''Scene one'',
         vc_description = Some (ascii ''Our launch video''), vc_thumbnail_prompt = None,
         vc_duration_seconds = None, vc_video_url = None\<rparr>\<rparr>
   = Inl TypeError"
    by (simp add: InstagramAdapter_adapt_video_content_def py_greater_def Let_def
        split: prod.splits)
  show "YouTubeAdapter_adapt_to_thumbnail
     \<lparr>ci_id = ascii ''c2'', ci_brand_id = ascii ''b1'', ci_platform = YOUTUBE,
      ci_content_type = IMAGE, ci_text_content = None,
      ci_image_content = Some
        \<lparr>ic_prompt = ascii ''a cat'', ic_image_url = Some (ascii ''https://example.com/cat.png''),
         ic_alt_text = None, ic_caption = None\<rparr>,
      ci_video_content = None\<rparr>
   = Inl ValueError"
    by (simp add: YouTubeAdapter_adapt_to_thumbnail_def YouTubeAdapter_check_thumbnail_format_def
        pydantic_setattr_def VideoContent_fields_def endswith_def startswith_def lower_def
        lower_char_def ascii_def Let_def)
qed

section \<open>Construction of a ContentItem\<close>

lemma validate_optional_keeps_errors:
  "vs_errors st \<noteq> [] \<Longrightarrow> vs_errors (validate_optional name none a st) \<noteq> []"
  by (cases a) (simp_all add: validate_optional_def split: option.splits)

lemma text_payload_step_fails:
  "vs_errors
     (validate_optional ''text_content'' (VTextContent None) (Given (VTextContent payload))
     (validate_required ''content_type'' True (Given (VContentType TEXT))
     (validate_required ''platform'' False p
     (validate_required ''brand_id'' False b
     (validate_required ''id'' False i
        \<lparr>vs_values = [], vs_errors = []\<rparr>))))) \<noteq> []"
  by (cases i; cases b; cases p)
     (simp_all add: validate_optional_def validate_required_def
        validate_content_consistency_def)

lemma matching_text_payload_rejected:
  assumes "kw_content_type kw = Given TEXT" and "kw_text_content kw = Given payload"
  shows "\<exists>problems. ContentItem_new kw = Inl problems"
proof -
  let ?st = "validate_optional ''text_content'' (VTextContent None)
               (map_arg VTextContent (kw_text_content kw))
            (validate_required ''content_type'' True (map_arg VContentType (kw_content_type kw))
            (validate_required ''platform'' False (map_arg VPlatform (kw_platform kw))
            (validate_required ''brand_id'' False (map_arg VStr (kw_brand_id kw))
            (validate_required ''id'' False (map_arg VStr (kw_id kw))
               \<lparr>vs_values = [], vs_errors = []\<rparr>))))"
  have "vs_errors ?st \<noteq> []"
    using assms text_payload_step_fails by (simp add: map_arg_def)
  then have "vs_errors (validate_optional ''image_content'' (VImageContent None)
                      (map_arg VImageContent (kw_image_content kw)) ?st) \<noteq> []"
    by (rule validate_optional_keeps_errors)
  then have "vs_errors (validate_model kw) \<noteq> []"
    unfolding validate_model_def by (rule validate_optional_keeps_errors)
  then show ?thesis
    by (cases "vs_errors (validate_model kw)") (simp_all add: ContentItem_new_def)
qed

text \<open>
  Claim C3, at two inputs. The claim says that construction succeeds when the payload of
  the declared content type is given and is rejected when it is missing. The validator
  tests \<open>'text_content' not in values\<close>, and \<open>values\<close> holds only the fields validated
  before the one at hand: while the given \<open>text_content\<close> is validated it is not yet in
  \<open>values\<close>, so the well-formed text item is rejected; and a field that is not given is
  stored with its default \<open>None\<close> without the validator running, so the text item without
  any payload is accepted.
\<close>

theorem content_item_validation_inverted:
  "ContentItem_new
     \<lparr>kw_id = Given (ascii ''c1''), kw_brand_id = Given (ascii ''b1''),
      kw_platform = Given FACEBOOK, kw_content_type = Given TEXT,
      kw_text_content = Given (Some \<lparr>tc_text = ascii ''hello'', tc_hashtags = None,
                                     tc_mentions = None\<rparr>),
      kw_image_content = Missing, kw_video_content = Missing\<rparr>
   = Inl [MustProvideTextContent ''text_content'']
   \<and> ContentItem_new
     \<lparr>kw_id = Given (ascii ''c1''), kw_brand_id = Given (ascii ''b1''),
      kw_platform = Given FACEBOOK, kw_content_type = Given TEXT,
      kw_text_content = Missing, kw_image_content = Missing, kw_video_content = Missing\<rparr>
   = Inr \<lparr>ci_id = ascii ''c1'', ci_brand_id = ascii ''b1'', ci_platform = FACEBOOK,
          ci_content_type = TEXT, ci_text_content = None, ci_image_content = None,
          ci_video_content = None\<rparr>"
  by (simp add: ContentItem_new_def validate_model_def validate_optional_def
      validate_required_def validate_content_consistency_def map_arg_def arg_or_def)

section \<open>Hashtag reconciliation\<close>

lemma length_capped: "length (if n < length xs then take n xs else xs) \<le> n"
  by simp

lemma adapt_hashtags_within_cap:
  "length (snd (FacebookAdapter_adapt_hashtags uni text existing)) \<le> FacebookAdapter_MAX_HASHTAGS
   \<and> length (snd (InstagramAdapter_adapt_hashtags uni text existing))
       \<le> InstagramAdapter_MAX_HASHTAGS
   \<and> length (snd (LinkedInAdapter_adapt_hashtags uni text existing))
       \<le> LinkedInAdapter_MAX_HASHTAGS"
  by (simp add: FacebookAdapter_adapt_hashtags_def InstagramAdapter_adapt_hashtags_def
      LinkedInAdapter_adapt_hashtags_def Let_def)

lemma distinct_merge_hashtags:
  assumes "distinct text_hashtags"
    and "case existing of None \<Rightarrow> True | Some explicit \<Rightarrow> distinct explicit"
  shows "distinct (merge_hashtags text_hashtags existing)"
  using assms by (auto simp: merge_hashtags_def split: option.splits)

lemma adapt_hashtags_distinct_when_inputs_distinct:
  assumes "distinct (findall_hashtags uni text)"
    and "case existing of None \<Rightarrow> True | Some explicit \<Rightarrow> distinct explicit"
  shows "distinct (snd (FacebookAdapter_adapt_hashtags uni text existing))
       \<and> distinct (snd (InstagramAdapter_adapt_hashtags uni text existing))
       \<and> distinct (snd (LinkedInAdapter_adapt_hashtags uni text existing))"
proof -
  let ?m = "merge_hashtags (findall_hashtags uni text) existing"
  have "distinct ?m"
    by (rule distinct_merge_hashtags [OF assms])
  then have capped: "distinct (if n < length ?m then take n ?m else ?m)" for n
    by simp
  have "snd (FacebookAdapter_adapt_hashtags uni text existing)
          = (if FacebookAdapter_MAX_HASHTAGS < length ?m
             then take FacebookAdapter_MAX_HASHTAGS ?m else ?m)"
    by (simp add: FacebookAdapter_adapt_hashtags_def Let_def)
  moreover have "snd (InstagramAdapter_adapt_hashtags uni text existing)
          = (if InstagramAdapter_MAX_HASHTAGS < length ?m
             then take InstagramAdapter_MAX_HASHTAGS ?m else ?m)"
    by (simp add: InstagramAdapter_adapt_hashtags_def Let_def)
  moreover have "snd (LinkedInAdapter_adapt_hashtags uni text existing)
          = (if LinkedInAdapter_MAX_HASHTAGS < length ?m
             then take LinkedInAdapter_MAX_HASHTAGS ?m else ?m)"
    by (simp add: LinkedInAdapter_adapt_hashtags_def Let_def)
  ultimately show ?thesis
    using capped by presburger
qed

text \<open>
  Claim C6, at inputs with a repeated tag. The claim says that the tag list returned by
  \<open>_adapt_hashtags\<close> never holds a tag twice, also when the inline tags repeat. The
  merge filters the explicit tags against the inline ones only: a tag that occurs twice
  in the text, or twice in the explicit list, is returned twice, by all three adapters.
  The cap on the length holds (\<open>adapt_hashtags_within_cap\<close>), and the list is free of
  duplicates when the inline tags and the explicit tags each are
  (\<open>adapt_hashtags_distinct_when_inputs_distinct\<close>).
\<close>

theorem adapt_hashtags_returns_duplicates:
  "FacebookAdapter_adapt_hashtags ascii_only (ascii ''Sale #eco now #eco'') None
     = (ascii ''Sale #eco now #eco'', [ascii ''eco'', ascii ''eco''])
   \<and> InstagramAdapter_adapt_hashtags ascii_only (ascii ''Sale #eco now #eco'') None
     = (ascii ''Sale #eco now #eco'', [ascii ''eco'', ascii ''eco''])
   \<and> LinkedInAdapter_adapt_hashtags ascii_only (ascii ''Sale #eco now #eco'') None
     = (ascii ''Sale #eco now #eco'', [ascii ''eco'', ascii ''eco''])
   \<and> FacebookAdapter_adapt_hashtags ascii_only (ascii ''Sale'')
        (Some [ascii ''eco'', ascii ''eco''])
     = (ascii ''Sale'', [ascii ''eco'', ascii ''eco''])"
  by (simp add: FacebookAdapter_adapt_hashtags_def InstagramAdapter_adapt_hashtags_def
      LinkedInAdapter_adapt_hashtags_def merge_hashtags_def FacebookAdapter_MAX_HASHTAGS_def
      InstagramAdapter_MAX_HASHTAGS_def LinkedInAdapter_MAX_HASHTAGS_def word_char_def
      ascii_def)

section \<open>The cut point of truncation\<close>





text \<open>
  The 70% test at some lengths. At \<open>max_length = 20\<close> and \<open>100\<close> the double product is
  the exact 14 and 70. At \<open>max_length = 90\<close> the product is rounded below 63, so the
  index 63, exactly at 70%, passes the test.
\<close>

lemma bit_length_numeral:
  "bit_length (numeral (Num.Bit0 n)) = Suc (bit_length (numeral n))"
  "bit_length (numeral (Num.Bit1 n)) = Suc (bit_length (numeral n))"
  "bit_length (Suc 0) = Suc 0"
  "bit_length 1 = Suc 0"
  "bit_length 0 = 0"
  by (subst bit_length.simps, simp add: bit_length.simps [of 0])+

lemma times_0_7_scaled_examples:
  "times_0_7_scaled 20 = 14 * 2 ^ 52"
  "times_0_7_scaled 100 = 70 * 2 ^ 52"
  "times_0_7_scaled 90 = 63 * 2 ^ 52 - 32"
  by (simp_all add: times_0_7_scaled_def round_to_53_bits_def round_half_even_def
      bit_length_numeral)


lemma beyond_70_percent_rounding:
  "beyond_70_percent 63 90" and "\<not> beyond_70_percent 70 100"
  by (simp_all add: beyond_70_percent_def times_0_7_scaled_examples)

lemma rfind_absent: "sub \<noteq> [] \<Longrightarrow> hd sub \<notin> set s \<Longrightarrow> rfind s sub = - 1"
  by (induction s) (auto simp: Let_def startswith_def neq_Nil_conv)

lemma rfind_single_occurrence:
  assumes "sub \<noteq> []" and "hd sub \<notin> set xs" and "hd sub \<notin> set (tl sub @ ys)"
  shows "rfind (xs @ sub @ ys) sub = int (length xs)"
  using assms(2)
proof (induction xs)
  case Nil
  obtain x rest where sub: "sub = x # rest"
    using assms(1) by (cases sub) auto
  have "rfind (rest @ ys) sub = - 1"
    using assms(1,3) sub by (intro rfind_absent) simp_all
  then show ?case
    by (simp add: sub Let_def startswith_def)
next
  case (Cons c xs)
  then have "rfind (xs @ sub @ ys) sub = int (length xs)"
    by simp
  then show ?case
    by (simp add: Let_def)
qed

lemma dropWhile_unchanged: "xs \<noteq> [] \<Longrightarrow> \<not> P (hd xs) \<Longrightarrow> dropWhile P xs = xs"
  by (cases xs) simp_all

lemma strip_unchanged:
  assumes "s \<noteq> []" and "\<not> isspace (hd s)" and "\<not> isspace (last s)"
  shows "strip s = s"
proof -
  have "dropWhile isspace s = s"
    using assms(1,2) by (rule dropWhile_unchanged)
  moreover have "dropWhile isspace (rev s) = rev s"
    using assms(1,3) by (intro dropWhile_unchanged) (simp_all add: hd_rev)
  ultimately show ?thesis
    by (simp add: strip_def)
qed

text \<open>
  A text of 105 characters with its only sentence end at index 63, truncated by YouTube
  to 90: the index is exactly 70% of 90 and passes the test of the code, so the text is
  cut after the full stop and gets no marker.
\<close>

lemma youtube_cut_exactly_at_70_percent:
  "YouTubeAdapter_truncate_text (replicate 63 97 @ ascii ''. '' @ replicate 40 98) 90
     = replicate 63 97 @ ascii ''.''"
proof -
  let ?budget = "replicate 63 97 @ [46, 32] @ replicate 25 (98::nat)"
  have budget: "slice_to (replicate 63 97 @ ascii ''. '' @ replicate 40 98) 90 = ?budget"
    by (simp add: slice_to_def ascii_def)
  have dot: "rfind ?budget (ascii ''. '') = 63"
    using rfind_single_occurrence [of "[46, 32]" "replicate 63 97" "replicate 25 98"]
    by (simp add: ascii_def)
  have bang: "rfind ?budget (ascii ''! '') = - 1"
    by (intro rfind_absent) (auto simp: ascii_def)
  have quest: "rfind ?budget (ascii ''? '') = - 1"
    by (intro rfind_absent) (auto simp: ascii_def)
  have cut: "slice_to ?budget 64 = replicate 63 97 @ [46]"
    by (simp add: slice_to_def)
  have stripped: "strip (replicate 63 97 @ [46]) = replicate 63 97 @ [46]"
    by (intro strip_unchanged) (simp_all add: isspace_def)
  show ?thesis
    using beyond_70_percent_rounding(1) budget dot bang quest cut stripped
    by (simp add: YouTubeAdapter_truncate_text_def Let_def ascii_def)
qed



section \<open>The weights of the consistency score\<close>

text \<open>
  Claim C8. Without a language model the weights that \<open>check_consistency\<close> applies are
  0.4 for the keywords, 0.2 for the sentence length and 0.4 for the style; they sum to
  1, and the score is the sum of the three sub-scores under these weights (the weight
  of the absent model score is 0).
\<close>

theorem weights_without_language_model:
  "w_keywords (consistency_weights False) = 0.4
   \<and> w_sentence_length (consistency_weights False) = 0.2
   \<and> w_style (consistency_weights False) = 0.4
   \<and> w_model (consistency_weights False) = 0
   \<and> w_keywords (consistency_weights False) + w_sentence_length (consistency_weights False)
       + w_style (consistency_weights False) = 1
   \<and> consistency_score
         (check_consistency nl \<lparr>brand_model = Some bm, language_model = None\<rparr> content)
       = fst (check_keywords \<lparr>brand_model = Some bm, language_model = None\<rparr> content) * 0.4
       + fst (check_sentence_length nl \<lparr>brand_model = Some bm, language_model = None\<rparr> content)
           * 0.2
       + fst (check_style_attributes nl \<lparr>brand_model = Some bm, language_model = None\<rparr> content)
           * 0.4"
  by (simp add: consistency_weights_def check_consistency_def Let_def split: prod.splits)

section \<open>The consistency score lies between 0 and 1\<close>

lemma check_keywords_bounds:
  "0 \<le> fst (check_keywords self content) \<and> fst (check_keywords self content) \<le> 1"
proof (cases "brand_model self")
  case None
  then show ?thesis by (simp add: check_keywords_def)
next
  case (Some bm)
  let ?found = "filter (\<lambda>keyword. contains (lower content) (lower keyword)) (bm_keywords bm)"
  have "length ?found \<le> length (bm_keywords bm)"
    by (rule length_filter_le)
  then have "real (length ?found) / real (length (bm_keywords bm)) \<le> 1"
    by (simp add: divide_le_eq_1)
  with Some show ?thesis
    by (simp add: check_keywords_def Let_def)
qed

lemma ideal_sentence_length_fold_ge:
  assumes "list_all BrandStyleAttribute_valid attrs" and "6 \<le> start"
  shows "6 \<le> fold (\<lambda>attr ideal.
             if lower (attr_name attr) \<in> set [[31777, 28500], [31777, 30701],
                                              ascii ''concise'', ascii ''brief'']
             then 10 * (1 - attr_value attr) + 6
             else if lower (attr_name attr) \<in> set [[35443, 32048], [35443, 30433],
                                                   ascii ''detailed'', ascii ''elaborate'']
             then 15 + 10 * attr_value attr
             else ideal) attrs (start::real)"
  using assms
proof (induction attrs arbitrary: start)
  case Nil
  then show ?case by simp
next
  case (Cons a attrs)
  from Cons.prems(1) have rest: "list_all BrandStyleAttribute_valid attrs"
    by simp
  from Cons.prems(1) have "BrandStyleAttribute_valid a"
    by simp
  then have a: "0 \<le> attr_value a" "attr_value a \<le> 1"
    by (simp_all add: BrandStyleAttribute_valid_def)
  have "6 \<le> 10 * (1 - attr_value a) + 6" and "6 \<le> 15 + 10 * attr_value a"
    using a by simp_all
  with Cons.prems(2) show ?case
    by (simp only: fold_simps) (intro Cons.IH [OF rest], simp)
qed

lemma ideal_sentence_length_positive:
  "list_all BrandStyleAttribute_valid attrs \<Longrightarrow> 0 < ideal_sentence_length attrs"
  using ideal_sentence_length_fold_ge [of attrs 15]
  by (simp add: ideal_sentence_length_def)

lemma check_sentence_length_bounds:
  assumes "case brand_model self of None \<Rightarrow> True
           | Some bm \<Rightarrow> list_all BrandStyleAttribute_valid (bm_style_attributes bm)"
  shows "0 \<le> fst (check_sentence_length nl self content)
       \<and> fst (check_sentence_length nl self content) \<le> 1"
proof -
  let ?attrs = "case brand_model self of None \<Rightarrow> [] | Some bm \<Rightarrow> bm_style_attributes bm"
  have "list_all BrandStyleAttribute_valid ?attrs"
    using assms by (simp split: option.splits)
  then have "0 < ideal_sentence_length ?attrs"
    by (rule ideal_sentence_length_positive)
  then have "0 \<le> \<bar>avg - ideal_sentence_length ?attrs\<bar> / ideal_sentence_length ?attrs" for avg
    by simp
  then show ?thesis
    by (simp add: check_sentence_length_def Let_def split: list.splits)
qed

lemma evaluate_attribute_bounds:
  "0 \<le> fst (evaluate_attribute nl content attribute target_value)
   \<and> fst (evaluate_attribute nl content attribute target_value) \<le> 1"
  by (simp add: evaluate_attribute_def Let_def split: prod.splits)

lemma style_fold_bounds:
  "snd acc \<le> snd (fold (style_step nl content) attrs acc)
   \<and> snd (fold (style_step nl content) attrs acc) \<le> snd acc + real (length attrs)"
proof (induction attrs arbitrary: acc)
  case Nil
  then show ?case by simp
next
  case (Cons a attrs)
  have step: "snd (style_step nl content a acc)
                = snd acc + fst (evaluate_attribute nl content (attr_name a) (attr_value a))"
    by (simp add: style_step_def Let_def split: prod.splits)
  have "0 \<le> fst (evaluate_attribute nl content (attr_name a) (attr_value a))"
    and "fst (evaluate_attribute nl content (attr_name a) (attr_value a)) \<le> 1"
    using evaluate_attribute_bounds by blast+
  with step Cons.IH [of "style_step nl content a acc"] show ?case
    by simp
qed

lemma check_style_attributes_bounds:
  "0 \<le> fst (check_style_attributes nl self content)
   \<and> fst (check_style_attributes nl self content) \<le> 1"
proof (cases "brand_model self")
  case None
  then show ?thesis by (simp add: check_style_attributes_def)
next
  case (Some bm)
  show ?thesis
  proof (cases "bm_style_attributes bm = []")
    case True
    with Some show ?thesis by (simp add: check_style_attributes_def)
  next
    case False
    let ?total = "snd (fold (style_step nl content) (bm_style_attributes bm) ([], 0))"
    have "0 \<le> ?total" and "?total \<le> real (length (bm_style_attributes bm))"
      using style_fold_bounds [of "([], 0)" nl content "bm_style_attributes bm"] by simp_all
    moreover have "0 < real (length (bm_style_attributes bm))"
      using False by simp
    ultimately have "0 \<le> ?total / real (length (bm_style_attributes bm))"
      and "?total / real (length (bm_style_attributes bm)) \<le> 1"
      by (simp_all add: divide_le_eq_1)
    with Some False show ?thesis
      by (simp add: check_style_attributes_def Let_def split_beta)
  qed
qed

lemma weighted_sum_bounds_without_model:
  fixes k s t :: real
  assumes "0 \<le> k" "k \<le> 1" "0 \<le> s" "s \<le> 1" "0 \<le> t" "t \<le> 1"
  shows "0 \<le> k * 0.4 + s * 0.2 + t * 0.4 \<and> k * 0.4 + s * 0.2 + t * 0.4 \<le> 1"
  using assms by simp

lemma weighted_sum_bounds_with_model:
  fixes k s t m :: real
  assumes "0 \<le> k" "k \<le> 1" "0 \<le> s" "s \<le> 1" "0 \<le> t" "t \<le> 1" "0 \<le> m" "m \<le> 1"
  shows "0 \<le> k * 0.2 + s * 0.1 + t * 0.3 + m * 0.4
       \<and> k * 0.2 + s * 0.1 + t * 0.3 + m * 0.4 \<le> 1"
  using assms by simp

text \<open>
  Claim C7. For every text and every keeper whose brand model has attribute values in
  \<open>[0, 1]\<close> (the bound of the schema) and whose language model, if there is one, scores
  the text in \<open>[0, 1]\<close>, the consistency score of \<open>check_consistency\<close> lies in \<open>[0, 1]\<close>.
  The text, the keyword list and the attribute list may be empty, the brand model may be
  absent, and the tokenizers are arbitrary.
\<close>

theorem consistency_score_in_unit_interval:
  assumes "case brand_model self of None \<Rightarrow> True
           | Some bm \<Rightarrow> list_all BrandStyleAttribute_valid (bm_style_attributes bm)"
    and "case language_model self of None \<Rightarrow> True
         | Some score_text \<Rightarrow> 0 \<le> score_text content \<and> score_text content \<le> 1"
  shows "0 \<le> consistency_score (check_consistency nl self content)
       \<and> consistency_score (check_consistency nl self content) \<le> 1"
proof (cases "brand_model self")
  case None
  then show ?thesis by (simp add: check_consistency_def)
next
  case (Some bm)
  let ?k = "fst (check_keywords self content)"
  let ?s = "fst (check_sentence_length nl self content)"
  let ?t = "fst (check_style_attributes nl self content)"
  have k: "0 \<le> ?k" "?k \<le> 1"
    using check_keywords_bounds by blast+
  have s: "0 \<le> ?s" "?s \<le> 1"
    using check_sentence_length_bounds [OF assms(1)] by blast+
  have t: "0 \<le> ?t" "?t \<le> 1"
    using check_style_attributes_bounds by blast+
  show ?thesis
  proof (cases "language_model self")
    case None
    have "consistency_score (check_consistency nl self content) = ?k * 0.4 + ?s * 0.2 + ?t * 0.4"
      using Some None
      by (simp add: check_consistency_def consistency_weights_def Let_def split_beta)
    with weighted_sum_bounds_without_model [OF k s t] show ?thesis
      by simp
  next
    case (Some score_text)
    with assms(2) have m: "0 \<le> score_text content" "score_text content \<le> 1"
      by simp_all
    have "consistency_score (check_consistency nl self content)
            = ?k * 0.2 + ?s * 0.1 + ?t * 0.3 + score_text content * 0.4"
      using \<open>brand_model self = Some bm\<close> Some
      by (simp add: check_consistency_def consistency_weights_def Let_def split_beta)
    with weighted_sum_bounds_with_model [OF k s t m] show ?thesis
      by simp
  qed
qed

theorem consistency_score_in_unit_interval_witness:
  "list_all BrandStyleAttribute_valid (bm_style_attributes example_brand)
   \<and> 0 \<le> example_language_model (ascii ''Our eco range is really nice!'')
   \<and> example_language_model (ascii ''Our eco range is really nice!'') \<le> 1
   \<and> 0 \<le> consistency_score
            (check_consistency example_nltk example_keeper (ascii ''Our eco range is really nice!''))
   \<and> consistency_score
        (check_consistency example_nltk example_keeper (ascii ''Our eco range is really nice!''))
       \<le> 1
   \<and> 0 \<le> consistency_score (check_consistency example_nltk empty_brand_keeper [])
   \<and> consistency_score (check_consistency example_nltk empty_brand_keeper []) \<le> 1"
proof -
  have valid: "list_all BrandStyleAttribute_valid (bm_style_attributes example_brand)"
    by (simp add: example_brand_def BrandStyleAttribute_valid_def)
  have scored: "0 \<le> example_language_model (ascii ''Our eco range is really nice!'')
                \<and> example_language_model (ascii ''Our eco range is really nice!'') \<le> 1"
    by (simp add: example_language_model_def)
  have h1: "case brand_model example_keeper of None \<Rightarrow> True
            | Some bm \<Rightarrow> list_all BrandStyleAttribute_valid (bm_style_attributes bm)"
    using valid by (simp add: example_keeper_def)
  have h2: "case language_model example_keeper of None \<Rightarrow> True
            | Some score_text \<Rightarrow> 0 \<le> score_text (ascii ''Our eco range is really nice!'')
                \<and> score_text (ascii ''Our eco range is really nice!'') \<le> 1"
    using scored by (simp add: example_keeper_def)
  have h3: "case brand_model empty_brand_keeper of None \<Rightarrow> True
            | Some bm \<Rightarrow> list_all BrandStyleAttribute_valid (bm_style_attributes bm)"
    by (simp add: empty_brand_keeper_def)
  have h4: "case language_model empty_brand_keeper of None \<Rightarrow> True
            | Some score_text \<Rightarrow> 0 \<le> score_text [] \<and> score_text [] \<le> 1"
    by (simp add: empty_brand_keeper_def)
  show ?thesis
    using valid scored consistency_score_in_unit_interval [OF h1 h2, of example_nltk]
      consistency_score_in_unit_interval [OF h3 h4, of example_nltk]
    by blast
qed

section \<open>The keyword scenario\<close>

lemma no_keyword_suggestion_in_style_suggestions:
  "filter is_keyword_suggestion (style_suggestions style_score style_details) = []"
  by (auto simp: style_suggestions_def filter_empty_conv split_beta)

lemma keyword_suggestion_rule:
  assumes "brand_model self = Some bm"
  shows "filter is_keyword_suggestion (suggestions (check_consistency nl self content))
           = keyword_suggestions bm (fst (check_keywords self content))
               (snd (check_keywords self content))"
proof -
  have "filter is_keyword_suggestion (keyword_suggestions bm k d) = keyword_suggestions bm k d"
    for k d
    by (simp add: keyword_suggestions_def Let_def)
  moreover have "filter is_keyword_suggestion (sentence_length_suggestions s d) = []" for s d
    by (simp add: sentence_length_suggestions_def)
  moreover have "filter is_keyword_suggestion (overall_suggestions t) = []" for t
    by (simp add: overall_suggestions_def)
  ultimately show ?thesis
    using assms no_keyword_suggestion_in_style_suggestions
    by (simp add: check_consistency_def Let_def split_beta)
qed

text \<open>
  Claim C9 fails as stated: for the keywords eco and green and the text "Our eco
  products", the keyword sub-score is 0.5 and the missing keyword is green, but the
  suggestions are only those for the sentence length and for the overall score. No
  suggestion names green: the code suggests keywords only for a sub-score below 0.5.
\<close>

theorem keyword_scenario_counterexample:
  "fst (check_keywords eco_green_keeper (ascii ''Our eco products'')) = 1 / 2
   \<and> missing_keywords (snd (check_keywords eco_green_keeper (ascii ''Our eco products'')))
       = [ascii ''green'']
   \<and> suggestions (check_consistency example_nltk eco_green_keeper (ascii ''Our eco products''))
       = [Lengthen_sentences, Revise_content]
   \<and> filter is_keyword_suggestion
        (suggestions (check_consistency example_nltk eco_green_keeper (ascii ''Our eco products'')))
       \<noteq> [Add_keywords [ascii ''green'']]"
proof -
  have k: "check_keywords eco_green_keeper (ascii ''Our eco products'')
             = (1 / 2, Keyword_coverage [ascii ''eco''] [ascii ''green''] (1, 2))"
    by (simp add: check_keywords_def eco_green_keeper_def lower_def lower_char_def ascii_def
        startswith_def)
  have s: "check_sentence_length example_nltk eco_green_keeper (ascii ''Our eco products'')
             = (1 / 5, Sentence_lengths 3 15 3 3 1)"
    by (simp add: check_sentence_length_def eco_green_keeper_def example_nltk_def
        average_sentence_length_def ideal_sentence_length_def split_def strip_def isspace_def
        ascii_def)
  have t: "check_style_attributes example_nltk eco_green_keeper (ascii ''Our eco products'')
             = (1, Style_not_configured)"
    by (simp add: check_style_attributes_def eco_green_keeper_def)
  have "suggestions (check_consistency example_nltk eco_green_keeper (ascii ''Our eco products''))
          = [Lengthen_sentences, Revise_content]"
    unfolding check_consistency_def k s t
    by (simp add: eco_green_keeper_def consistency_weights_def keyword_suggestions_def
        sentence_length_suggestions_def style_suggestions_def overall_suggestions_def)
  with k show ?thesis
    by simp
qed

text \<open>
  Claim C9 as amended. For a brand model with the keywords eco and green and a text that
  contains "eco" but not "green" (in any letter case), \<open>check_consistency\<close> yields a keyword
  sub-score of exactly 0.5, reports green as the one missing keyword, and produces no
  keyword suggestion. This holds for every tokenizer, any style attributes and with or
  without a language model.
\<close>

theorem keyword_scenario:
  assumes "brand_model self = Some bm"
    and "bm_keywords bm = [ascii ''eco'', ascii ''green'']"
    and "contains (lower content) (ascii ''eco'')"
    and "\<not> contains (lower content) (ascii ''green'')"
  shows "fst (check_keywords self content) = 1 / 2
       \<and> missing_keywords (snd (check_keywords self content)) = [ascii ''green'']
       \<and> map_option d_keywords (details (check_consistency nl self content))
           = Some (Keyword_coverage [ascii ''eco''] [ascii ''green''] (1, 2))
       \<and> filter is_keyword_suggestion (suggestions (check_consistency nl self content)) = []"
proof -
  have low: "lower (ascii ''eco'') = ascii ''eco''" "lower (ascii ''green'') = ascii ''green''"
    by (simp_all add: lower_def lower_char_def ascii_def)
  have k: "check_keywords self content
             = (1 / 2, Keyword_coverage [ascii ''eco''] [ascii ''green''] (1, 2))"
    using assms by (simp add: check_keywords_def low)
  have "filter is_keyword_suggestion (suggestions (check_consistency nl self content)) = []"
    unfolding keyword_suggestion_rule [OF assms(1)] k
    by (simp add: keyword_suggestions_def)
  moreover have "map_option d_keywords (details (check_consistency nl self content))
                   = Some (Keyword_coverage [ascii ''eco''] [ascii ''green''] (1, 2))"
    using assms(1) k by (simp add: check_consistency_def Let_def split_beta)
  ultimately show ?thesis
    using k by simp
qed

theorem keyword_scenario_witness:
  "brand_model example_keeper = Some example_brand
   \<and> bm_keywords example_brand = [ascii ''eco'', ascii ''green'']
   \<and> contains (lower (ascii ''Our ECO range'')) (ascii ''eco'')
   \<and> \<not> contains (lower (ascii ''Our ECO range'')) (ascii ''green'')
   \<and> fst (check_keywords example_keeper (ascii ''Our ECO range'')) = 1 / 2
   \<and> missing_keywords (snd (check_keywords example_keeper (ascii ''Our ECO range'')))
       = [ascii ''green'']
   \<and> filter is_keyword_suggestion
        (suggestions (check_consistency example_nltk example_keeper (ascii ''Our ECO range'')))
       = []"
proof -
  have h1: "brand_model example_keeper = Some example_brand"
    by (simp add: example_keeper_def)
  have h2: "bm_keywords example_brand = [ascii ''eco'', ascii ''green'']"
    by (simp add: example_brand_def)
  have h3: "contains (lower (ascii ''Our ECO range'')) (ascii ''eco'')"
    by (simp add: lower_def lower_char_def ascii_def startswith_def)
  have h4: "\<not> contains (lower (ascii ''Our ECO range'')) (ascii ''green'')"
    by (simp add: lower_def lower_char_def ascii_def startswith_def)
  show ?thesis
    using h1 h2 h3 h4 keyword_scenario [OF h1 h2 h3 h4, of example_nltk]
    by blast
qed

section \<open>Content within the limits\<close>

lemma findall_hashtags_without_hash: "35 \<notin> set s \<Longrightarrow> findall_hashtags uni s = []"
  by (induction s) simp_all

lemma facebook_text_within_limits:
  assumes "ci_text_content item = Some tc"
    and "int (length (tc_text tc)) \<le> FacebookAdapter_MAX_POST_LENGTH"
    and "length (findall_hashtags uni (tc_text tc)) \<le> FacebookAdapter_MAX_HASHTAGS"
  shows "adapted_text (FacebookAdapter_adapt_text_content uni item) = Some (tc_text tc)"
    and "metadata_entry (FacebookAdapter_adapt_text_content uni item) ''is_within_limits''
           = Some (MBool True)"
proof -
  have len: "FacebookAdapter_adapt_text_length (tc_text tc) = tc_text tc"
    using assms(2) by (simp add: FacebookAdapter_adapt_text_length_def)
  have tags: "fst (FacebookAdapter_adapt_hashtags uni (tc_text tc) h) = tc_text tc" for h
    using assms(3) by (simp add: FacebookAdapter_adapt_hashtags_def Let_def)
  show "adapted_text (FacebookAdapter_adapt_text_content uni item) = Some (tc_text tc)"
    using assms(1) len tags
    by (simp add: FacebookAdapter_adapt_text_content_def FacebookAdapter_adapt_mentions_def
        adapted_text_def Let_def split_beta)
  show "metadata_entry (FacebookAdapter_adapt_text_content uni item) ''is_within_limits''
          = Some (MBool True)"
    using assms(1,2) len tags
    by (simp add: FacebookAdapter_adapt_text_content_def FacebookAdapter_adapt_mentions_def
        metadata_entry_def Let_def split_beta)
qed

lemma instagram_caption_within_limits:
  assumes "ci_text_content item = Some tc"
    and "int (length (tc_text tc)) \<le> InstagramAdapter_MAX_CAPTION_LENGTH"
    and "length (findall_hashtags uni (tc_text tc)) \<le> 3"
  shows "adapted_caption (InstagramAdapter_adapt_to_caption uni item) = Some (tc_text tc)"
    and "metadata_entry (InstagramAdapter_adapt_to_caption uni item) ''is_within_limits''
           = Some (MBool True)"
proof -
  have len: "InstagramAdapter_adapt_caption_length (tc_text tc) = tc_text tc"
    using assms(2) by (simp add: InstagramAdapter_adapt_caption_length_def)
  have tags: "fst (InstagramAdapter_adapt_hashtags uni (tc_text tc) h) = tc_text tc" for h
    using assms(3) by (simp add: InstagramAdapter_adapt_hashtags_def Let_def)
  show "adapted_caption (InstagramAdapter_adapt_to_caption uni item) = Some (tc_text tc)"
    using assms(1) len tags
    by (simp add: InstagramAdapter_adapt_to_caption_def InstagramAdapter_adapt_mentions_def
        adapted_caption_def Let_def split_beta split: option.splits)
  show "metadata_entry (InstagramAdapter_adapt_to_caption uni item) ''is_within_limits''
          = Some (MBool True)"
    using assms(1,2) len tags
    by (simp add: InstagramAdapter_adapt_to_caption_def InstagramAdapter_adapt_mentions_def
        metadata_entry_def Let_def split_beta)
qed

lemma linkedin_text_within_limits:
  assumes "ci_text_content item = Some tc"
    and "int (length (tc_text tc)) \<le> LinkedInAdapter_MAX_ARTICLE_LENGTH"
  shows "adapted_text (LinkedInAdapter_adapt_text_content uni item) = Some (tc_text tc)"
    and "metadata_entry (LinkedInAdapter_adapt_text_content uni item) ''is_within_limits''
           = Some (MBool True)"
proof -
  let ?article = "300 < length (split (tc_text tc)) \<or> 1000 < length (tc_text tc)"
  have len: "(if ?article then LinkedInAdapter_adapt_article_length (tc_text tc)
              else LinkedInAdapter_adapt_post_length (tc_text tc)) = tc_text tc"
    using assms(2)
    by (simp add: LinkedInAdapter_adapt_article_length_def LinkedInAdapter_adapt_post_length_def
        LinkedInAdapter_MAX_POST_LENGTH_def)
  have limit: "int (length (tc_text tc))
                 \<le> (if ?article then LinkedInAdapter_MAX_ARTICLE_LENGTH
                     else LinkedInAdapter_MAX_POST_LENGTH)"
    using assms(2) by (simp add: LinkedInAdapter_MAX_POST_LENGTH_def)
  have tags: "fst (LinkedInAdapter_adapt_hashtags uni t h) = t" for t h
    by (simp add: LinkedInAdapter_adapt_hashtags_def Let_def)
  show "adapted_text (LinkedInAdapter_adapt_text_content uni item) = Some (tc_text tc)"
    using assms(1) len tags
    by (simp add: LinkedInAdapter_adapt_text_content_def LinkedInAdapter_adapt_mentions_def
        adapted_text_def Let_def split_beta)
  show "metadata_entry (LinkedInAdapter_adapt_text_content uni item) ''is_within_limits''
          = Some (MBool True)"
    using assms(1) len limit tags
    by (simp add: LinkedInAdapter_adapt_text_content_def LinkedInAdapter_adapt_mentions_def
        metadata_entry_def Let_def split_beta)
qed

text \<open>
  Claim C10 fails as stated, at two inputs within all limits. A YouTube title of 11
  characters that starts with a lower-case letter comes back with its first letter in
  upper case; an Instagram text of 15 characters with four inline hashtags (the cap is
  30) comes back with the hashtags moved into a block at the end.
\<close>

theorem within_limits_counterexample:
  "int (length (ascii ''hello world'')) \<le> YouTubeAdapter_MAX_TITLE_LENGTH
   \<and> YouTubeAdapter_adapt_title (ascii ''hello world'') = ascii ''Hello world''
   \<and> YouTubeAdapter_adapt_title (ascii ''hello world'') \<noteq> ascii ''hello world''
   \<and> int (length (ascii ''Tea #a #b #c #d'')) \<le> InstagramAdapter_MAX_CAPTION_LENGTH
   \<and> length (findall_hashtags ascii_only (ascii ''Tea #a #b #c #d''))
       \<le> InstagramAdapter_MAX_HASHTAGS
   \<and> adapted_caption (InstagramAdapter_adapt_to_caption ascii_only
        (text_item (ascii ''Tea #a #b #c #d'')))
       = Some (ascii ''Tea'' @ [10, 10] @ ascii ''#a #b #c #d'')"
proof -
  have yt: "YouTubeAdapter_adapt_title (ascii ''hello world'') = ascii ''Hello world''"
    by (simp add: YouTubeAdapter_adapt_title_def YouTubeAdapter_MAX_TITLE_LENGTH_def
        starts_lowercase_def capitalize_first_def upper_char_def ascii_def)
  have tags: "findall_hashtags ascii_only (ascii ''Tea #a #b #c #d'')
                = [ascii ''a'', ascii ''b'', ascii ''c'', ascii ''d'']"
    by (simp add: word_char_def ascii_def)
  have removed: "strip (remove_hashtags ascii_only (ascii ''Tea #a #b #c #d'')) = ascii ''Tea''"
    by (simp add: word_char_def strip_def isspace_def ascii_def)
  have ig: "InstagramAdapter_adapt_hashtags ascii_only (ascii ''Tea #a #b #c #d'') None
              = (ascii ''Tea'' @ [10, 10] @ ascii ''#a #b #c #d'',
                 [ascii ''a'', ascii ''b'', ascii ''c'', ascii ''d''])"
    unfolding InstagramAdapter_adapt_hashtags_def tags removed
    by (simp add: merge_hashtags_def InstagramAdapter_MAX_HASHTAGS_def ascii_def)
  have len: "InstagramAdapter_adapt_caption_length (ascii ''Tea #a #b #c #d'')
               = ascii ''Tea #a #b #c #d''"
    by (simp add: InstagramAdapter_adapt_caption_length_def
        InstagramAdapter_MAX_CAPTION_LENGTH_def ascii_def)
  have "adapted_caption (InstagramAdapter_adapt_to_caption ascii_only
          (text_item (ascii ''Tea #a #b #c #d'')))
        = Some (ascii ''Tea'' @ [10, 10] @ ascii ''#a #b #c #d'')"
    by (simp add: InstagramAdapter_adapt_to_caption_def text_item_def len ig
        InstagramAdapter_adapt_mentions_def adapted_caption_def)
  moreover have "ascii ''Hello world'' \<noteq> ascii ''hello world''"
    by (simp add: ascii_def)
  moreover have "length (ascii ''hello world'') = 11" and "length (ascii ''Tea #a #b #c #d'') = 15"
    by (simp_all add: ascii_def)
  ultimately show ?thesis
    using yt tags
    by (simp add: YouTubeAdapter_MAX_TITLE_LENGTH_def InstagramAdapter_MAX_CAPTION_LENGTH_def
        InstagramAdapter_MAX_HASHTAGS_def)
qed

text \<open>
  Claim C10 as amended. Adaptation returns the text as it is, with the within-limits flag
  true, for a Facebook text of at most 63206 characters with at most five inline
  hashtags, for an Instagram text of at most 2200 characters with at most three inline
  hashtags (it becomes the caption), and for a LinkedIn text of at most 100000
  characters. A YouTube title of at most 100 characters is returned as it is when it is
  not empty and does not start with an ASCII lower-case letter, and a YouTube
  description of at most 5000 characters is returned as it is.
\<close>

theorem within_limits_unchanged:
  "(ci_text_content item = Some tc
      \<and> int (length (tc_text tc)) \<le> FacebookAdapter_MAX_POST_LENGTH
      \<and> length (findall_hashtags uni (tc_text tc)) \<le> FacebookAdapter_MAX_HASHTAGS
    \<longrightarrow> adapted_text (FacebookAdapter_adapt_text_content uni item) = Some (tc_text tc)
      \<and> metadata_entry (FacebookAdapter_adapt_text_content uni item) ''is_within_limits''
          = Some (MBool True))
   \<and> (ci_text_content item = Some tc
      \<and> int (length (tc_text tc)) \<le> InstagramAdapter_MAX_CAPTION_LENGTH
      \<and> length (findall_hashtags uni (tc_text tc)) \<le> 3
    \<longrightarrow> adapted_caption (InstagramAdapter_adapt_to_caption uni item) = Some (tc_text tc)
      \<and> metadata_entry (InstagramAdapter_adapt_to_caption uni item) ''is_within_limits''
          = Some (MBool True))
   \<and> (ci_text_content item = Some tc
      \<and> int (length (tc_text tc)) \<le> LinkedInAdapter_MAX_ARTICLE_LENGTH
    \<longrightarrow> adapted_text (LinkedInAdapter_adapt_text_content uni item) = Some (tc_text tc)
      \<and> metadata_entry (LinkedInAdapter_adapt_text_content uni item) ''is_within_limits''
          = Some (MBool True))
   \<and> (title \<noteq> [] \<and> int (length title) \<le> YouTubeAdapter_MAX_TITLE_LENGTH
      \<and> \<not> starts_lowercase title
    \<longrightarrow> YouTubeAdapter_adapt_title title = title)
   \<and> (int (length description) \<le> YouTubeAdapter_MAX_DESCRIPTION_LENGTH
    \<longrightarrow> YouTubeAdapter_adapt_description description = description)"
proof (intro conjI impI)
  assume "title \<noteq> [] \<and> int (length title) \<le> YouTubeAdapter_MAX_TITLE_LENGTH
            \<and> \<not> starts_lowercase title"
  then show "YouTubeAdapter_adapt_title title = title"
    by (simp add: YouTubeAdapter_adapt_title_def)
next
  assume "int (length description) \<le> YouTubeAdapter_MAX_DESCRIPTION_LENGTH"
  then show "YouTubeAdapter_adapt_description description = description"
    by (simp add: YouTubeAdapter_adapt_description_def)
qed (simp_all add: facebook_text_within_limits instagram_caption_within_limits
       linkedin_text_within_limits)

theorem within_limits_unchanged_witness:
  "ci_text_content (text_item (replicate 500 97)) = Some \<lparr>tc_text = replicate 500 97,
       tc_hashtags = None, tc_mentions = None\<rparr>
   \<and> int (length (replicate 500 (97::nat))) \<le> FacebookAdapter_MAX_POST_LENGTH
   \<and> length (findall_hashtags ascii_only (replicate 500 97)) \<le> 3
   \<and> ascii ''Hello world'' \<noteq> []
   \<and> int (length (ascii ''Hello world'')) \<le> YouTubeAdapter_MAX_TITLE_LENGTH
   \<and> \<not> starts_lowercase (ascii ''Hello world'')
   \<and> adapted_text (FacebookAdapter_adapt_text_content ascii_only (text_item (replicate 500 97)))
       = Some (replicate 500 97)
   \<and> metadata_entry (FacebookAdapter_adapt_text_content ascii_only (text_item (replicate 500 97)))
        ''is_within_limits'' = Some (MBool True)
   \<and> adapted_caption (InstagramAdapter_adapt_to_caption ascii_only (text_item (replicate 500 97)))
       = Some (replicate 500 97)
   \<and> adapted_text (LinkedInAdapter_adapt_text_content ascii_only (text_item (replicate 500 97)))
       = Some (replicate 500 97)
   \<and> YouTubeAdapter_adapt_title (ascii ''Hello world'') = ascii ''Hello world''
   \<and> YouTubeAdapter_adapt_description (ascii ''Hello world'') = ascii ''Hello world''"
proof -
  have tags: "findall_hashtags ascii_only (replicate 500 97) = []"
    by (rule findall_hashtags_without_hash) simp
  show ?thesis
    using within_limits_unchanged [of "text_item (replicate 500 97)"
        "\<lparr>tc_text = replicate 500 97, tc_hashtags = None, tc_mentions = None\<rparr>"
        ascii_only "ascii ''Hello world''" "ascii ''Hello world''"]
    by (simp add: tags text_item_def FacebookAdapter_MAX_POST_LENGTH_def
        FacebookAdapter_MAX_HASHTAGS_def InstagramAdapter_MAX_CAPTION_LENGTH_def
        LinkedInAdapter_MAX_ARTICLE_LENGTH_def YouTubeAdapter_MAX_TITLE_LENGTH_def
        YouTubeAdapter_MAX_DESCRIPTION_LENGTH_def starts_lowercase_def ascii_def)
qed

end
